theory Spec2Isabelle
  imports Main "HOL-Library.AList"
begin

section \<open>JavaScript values\<close>

text \<open>
  The model classes of the application (\<^verbatim>\<open>Person.mjs\<close>, \<^verbatim>\<open>Movie.mjs\<close>) are dynamically
  typed: a slot of a construction record may hold a number, a string, an array or a
  nested record, and the check functions branch on \<^verbatim>\<open>typeof\<close>, on truthiness and on
  the result of \<^verbatim>\<open>parseInt\<close>. The values that reach those functions are embedded as
  one datatype. Numbers are the integers and \<^verbatim>\<open>NaN\<close> (fractional numbers are left out;
  a fractional candidate arrives as a string such as \<^verbatim>\<open>"3.7"\<close>), strings are ASCII,
  and an object literal is an association list in property order.
\<close>

datatype jsval =
    JUndefined
  | JNull
  | JBool bool
  | JNum int
  | JNaN
  | JStr string
  | JArr "jsval list"
  | JObj "(string \<times> jsval) list"

text \<open>
  Modelled from the spec: \<^verbatim>\<open>lib/errorTypes.mjs\<close> is not among the sources. The
  taxonomy is the closed set of the spec (no violation, mandatory value, range, pattern,
  uniqueness, referential integrity, frozen value, interval) and the class
  \<^verbatim>\<open>ConstraintViolation\<close> itself, which \<^verbatim>\<open>Movie.mjs\<close> imports and instantiates; the
  messages are left out.
\<close>

datatype violation =
    NoConstraintViolation
  | ConstraintViolation
  | MandatoryValueConstraintViolation
  | RangeConstraintViolation
  | PatternConstraintViolation
  | UniquenessConstraintViolation
  | ReferentialIntegrityConstraintViolation
  | FrozenValueConstraintViolation
  | IntervalConstraintViolation

text \<open>What a \<^verbatim>\<open>throw\<close> raises: a violation, or one of the two runtime errors of the
  language that the modelled code can run into.\<close>

datatype exn = Violation violation | TypeError | ReferenceError

text \<open>\<^verbatim>\<open>!v\<close> is false exactly for the truthy values.\<close>

fun js_truthy :: "jsval \<Rightarrow> bool" where
  "js_truthy JUndefined = False"
| "js_truthy JNull = False"
| "js_truthy (JBool b) = b"
| "js_truthy (JNum n) = (n \<noteq> 0)"
| "js_truthy JNaN = False"
| "js_truthy (JStr s) = (s \<noteq> [])"
| "js_truthy (JArr xs) = True"
| "js_truthy (JObj kvs) = True"

fun js_typeof :: "jsval \<Rightarrow> string" where
  "js_typeof JUndefined = ''undefined''"
| "js_typeof JNull = ''object''"
| "js_typeof (JBool b) = ''boolean''"
| "js_typeof (JNum n) = ''number''"
| "js_typeof JNaN = ''number''"
| "js_typeof (JStr s) = ''string''"
| "js_typeof (JArr xs) = ''object''"
| "js_typeof (JObj kvs) = ''object''"

fun js_isArray :: "jsval \<Rightarrow> bool" where
  "js_isArray (JArr xs) = True"
| "js_isArray v = False"

text \<open>\<^verbatim>\<open>a === b\<close>. An array or a record held by a slot is an object of its own, never
  identical to a stored field value; \<^verbatim>\<open>NaN\<close> is not equal to itself.\<close>

fun js_is_object :: "jsval \<Rightarrow> bool" where
  "js_is_object (JArr xs) = True"
| "js_is_object (JObj kvs) = True"
| "js_is_object v = False"

definition js_strict_eq :: "jsval \<Rightarrow> jsval \<Rightarrow> bool" where
  "js_strict_eq a b = (a = b \<and> a \<noteq> JNaN \<and> \<not> js_is_object a)"

subsection \<open>Number to string\<close>

definition digit_char :: "nat \<Rightarrow> char" where
  "digit_char d = ''0123456789'' ! d"

fun string_of_nat :: "nat \<Rightarrow> string" where
  "string_of_nat n =
     (if n < 10 then [digit_char n]
      else string_of_nat (n div 10) @ [digit_char (n mod 10)])"

declare string_of_nat.simps [simp del]

definition string_of_int :: "int \<Rightarrow> string" where
  "string_of_int i =
     (if i < 0 then CHR ''-'' # string_of_nat (nat (- i)) else string_of_nat (nat i))"

text \<open>\<^verbatim>\<open>Array.prototype.join\<close> with a comma.\<close>

fun join_comma :: "string list \<Rightarrow> string" where
  "join_comma [] = []"
| "join_comma [s] = s"
| "join_comma (s # t # ss) = s @ '','' @ join_comma (t # ss)"

text \<open>\<^verbatim>\<open>String(v)\<close>, which is also the property key \<^verbatim>\<open>v\<close> stands for in \<^verbatim>\<open>obj[v]\<close>.
  An array prints its elements joined by commas, \<^verbatim>\<open>null\<close> and \<^verbatim>\<open>undefined\<close>
  elements as the empty string.\<close>

fun js_ToString :: "jsval \<Rightarrow> string" where
  "js_ToString JUndefined = ''undefined''"
| "js_ToString JNull = ''null''"
| "js_ToString (JBool b) = (if b then ''true'' else ''false'')"
| "js_ToString (JNum n) = string_of_int n"
| "js_ToString JNaN = ''NaN''"
| "js_ToString (JStr s) = s"
| "js_ToString (JArr xs) =
     join_comma (map (\<lambda>x. if x = JUndefined \<or> x = JNull then [] else js_ToString x) xs)"
| "js_ToString (JObj kvs) = ''[object Object]''"

subsection \<open>parseInt\<close>

definition is_ws :: "char \<Rightarrow> bool" where
  "is_ws c = (c \<in> set [CHR '' '', CHR 0x09, CHR 0x0A, CHR 0x0B, CHR 0x0C, CHR 0x0D])"

text \<open>The value of a digit in the given radix, if it is one.\<close>

definition digit_val :: "nat \<Rightarrow> char \<Rightarrow> nat option" where
  "digit_val radix c =
     (let k = (of_char c :: nat);
          v = (if 48 \<le> k \<and> k \<le> 57 then Some (k - 48)
               else if 97 \<le> k \<and> k \<le> 122 then Some (k - 87)
               else if 65 \<le> k \<and> k \<le> 90 then Some (k - 55)
               else None)
      in case v of None \<Rightarrow> None | Some d \<Rightarrow> if d < radix then Some d else None)"

text \<open>The number read from the longest prefix of digits: \<open>None\<close> when there is no digit.\<close>

fun read_digits :: "nat \<Rightarrow> nat option \<Rightarrow> string \<Rightarrow> nat option" where
  "read_digits radix acc [] = acc"
| "read_digits radix acc (c # cs) =
     (case digit_val radix c of
        None \<Rightarrow> acc
      | Some d \<Rightarrow> read_digits radix (Some ((case acc of None \<Rightarrow> 0 | Some a \<Rightarrow> a) * radix + d)) cs)"

text \<open>\<^verbatim>\<open>parseInt(s)\<close> of a string, without a radix argument: leading white space is
  skipped, a sign is read, a prefix \<^verbatim>\<open>0x\<close> selects radix 16, and the digits up to the
  first other character are the number. \<open>None\<close> is \<^verbatim>\<open>NaN\<close>.\<close>

definition parseInt_string :: "string \<Rightarrow> int option" where
  "parseInt_string s =
     (let s1 = dropWhile is_ws s;
          neg = (case s1 of c # r \<Rightarrow> c = CHR ''-'' | [] \<Rightarrow> False);
          s2 = (case s1 of c # r \<Rightarrow> if c = CHR ''-'' \<or> c = CHR ''+'' then r else s1 | [] \<Rightarrow> s1);
          hex = (take 2 s2 = ''0x'' \<or> take 2 s2 = ''0X'');
          r = (if hex then read_digits 16 None (drop 2 s2) else read_digits 10 None s2)
      in case r of None \<Rightarrow> None
         | Some n \<Rightarrow> Some (if neg then - int n else int n))"

text \<open>\<^verbatim>\<open>parseInt(v)\<close> converts its argument to a string first; an integer comes back
  as itself (numbers of magnitude \<open>10\<^sup>2\<^sup>1\<close> and more, which print in exponent notation,
  are outside the model).\<close>

definition js_parseInt :: "jsval \<Rightarrow> int option" where
  "js_parseInt v = (case v of JNum n \<Rightarrow> Some n | _ \<Rightarrow> parseInt_string (js_ToString v))"

text \<open>The number value \<^verbatim>\<open>parseInt\<close> returns.\<close>

definition num_of :: "int option \<Rightarrow> jsval" where
  "num_of r = (case r of None \<Rightarrow> JNaN | Some n \<Rightarrow> JNum n)"

text \<open>\<^verbatim>\<open>s.trim() === ""\<close>.\<close>

definition trim_is_empty :: "string \<Rightarrow> bool" where
  "trim_is_empty s = list_all is_ws s"

text \<open>\<^verbatim>\<open>/^(?=.{0,120}$).*$/.test(t)\<close>: at most 120 characters, none of them a line
  terminator (the dot does not match one).\<close>

definition matches_max120 :: "string \<Rightarrow> bool" where
  "matches_max120 t = (length t \<le> 120 \<and> list_all (\<lambda>c. c \<noteq> CHR 0x0A \<and> c \<noteq> CHR 0x0D) t)"

text \<open>Property access \<^verbatim>\<open>p.personId\<close> on a value whose \<^verbatim>\<open>typeof\<close> is \<^verbatim>\<open>"object"\<close>:
  reading a property of \<^verbatim>\<open>null\<close> throws.\<close>

definition get_personId :: "jsval \<Rightarrow> exn + jsval" where
  "get_personId p =
     (case p of
        JNull \<Rightarrow> Inl TypeError
      | JObj kvs \<Rightarrow> Inr (case map_of kvs ''personId'' of None \<Rightarrow> JUndefined | Some v \<Rightarrow> v)
      | _ \<Rightarrow> Inr JUndefined)"

section \<open>Library helpers\<close>

text \<open>
  Modelled from the spec: \<^verbatim>\<open>lib/Enumeration.mjs\<close> is not among the sources. The
  enumeration helper "maps an ordered list of labels to 1-based integer codes"; the
  movie categories are built from the labels \<^verbatim>\<open>["Tvseriesepisode","Biography"]\<close>
  (\<^verbatim>\<open>Movie.mjs\<close>, line 21), so \<^verbatim>\<open>MAX\<close> is the number of labels and each label in
  upper case names its position.
\<close>

definition MovieCategoryEL_labels :: "string list" where
  "MovieCategoryEL_labels = [''Tvseriesepisode'', ''Biography'']"

definition MovieCategoryEL_MAX :: int where
  "MovieCategoryEL_MAX = int (length MovieCategoryEL_labels)"

definition TVSERIESEPISODE :: int where
  "TVSERIESEPISODE = 1"

definition BIOGRAPHY :: int where
  "BIOGRAPHY = 2"

text \<open>
  Modelled from the spec: \<^verbatim>\<open>isIntegerOrIntegerString\<close> of \<^verbatim>\<open>lib/util.mjs\<close> is not
  among the sources. By its name and its use in the range checks it holds of an integer
  number and of a string that is an optional minus sign followed by decimal digits.
\<close>

definition is_decimal_digit :: "char \<Rightarrow> bool" where
  "is_decimal_digit c = (digit_val 10 c \<noteq> None)"

definition isIntegerOrIntegerString :: "jsval \<Rightarrow> bool" where
  "isIntegerOrIntegerString x =
     (case x of
        JNum n \<Rightarrow> True
      | JStr s \<Rightarrow>
          (let ds = (case s of c # r \<Rightarrow> if c = CHR ''-'' then r else s | [] \<Rightarrow> s)
           in ds \<noteq> [] \<and> list_all is_decimal_digit ds)
      | _ \<Rightarrow> False)"

section \<open>Dates\<close>

text \<open>
  A \<^verbatim>\<open>Date\<close> is kept as the calendar day it denotes (time of day and time zone are
  left out), or as the invalid date. \<^verbatim>\<open>new Date(year, monthIndex, day)\<close> counts months
  from zero and carries a month index beyond 11 into the following years.
  A release-date slot is \<open>None\<close> when it is falsy (absent or the empty string) and
  otherwise \<open>Some d\<close> for the date \<^verbatim>\<open>new Date(y)\<close> evaluates to, whether \<^verbatim>\<open>y\<close> is a
  \<^verbatim>\<open>Date\<close> or a date string.
\<close>

datatype jsdate = InvalidDate | YMD int int int

definition Date_ymd :: "int \<Rightarrow> int \<Rightarrow> int \<Rightarrow> jsdate" where
  "Date_ymd year monthIndex day = YMD (year + monthIndex div 12) (monthIndex mod 12 + 1) day"

text \<open>\<^verbatim>\<open>a < b\<close> on dates compares the time values; with an invalid date it is false.\<close>

fun date_less :: "jsdate \<Rightarrow> jsdate \<Rightarrow> bool" where
  "date_less (YMD y m d) (YMD y' m' d') =
     (y < y' \<or> (y = y' \<and> (m < m' \<or> (m = m' \<and> d < d'))))"
| "date_less a b = False"

section \<open>Objects and the global collections\<close>

text \<open>
  A Person, Director or Actor object lives at an address of the heap, since a movie
  and a collection may hold the same object. \<^verbatim>\<open>directedMovies\<close> is the map a Director
  is constructed with and \<^verbatim>\<open>actedInMovies\<close> the one of an Actor; on an object of
  another class the property is undefined (\<open>None\<close>). A JavaScript object used as a map
  is an association list from property keys to values (the properties every object
  inherits, such as \<^verbatim>\<open>toString\<close>, are not keys of the model).
\<close>

type_synonym addr = nat

datatype pclass = PersonClass | DirectorClass | ActorClass

text \<open>
  Modelled from the spec: \<^verbatim>\<open>Actor.mjs\<close> is not among the sources. An Actor is a Person
  with the back-reference map \<^verbatim>\<open>actedInMovies\<close>, "maintained the same way" as the
  \<^verbatim>\<open>directedMovies\<close> of a Director, and the class has its collection
  \<^verbatim>\<open>Actor.instances\<close>; these are the two parts of it \<^verbatim>\<open>Movie.addPerson\<close> and
  \<^verbatim>\<open>Movie.removePerson\<close> use. The other fields are those of \<^verbatim>\<open>Person.mjs\<close> and
  \<^verbatim>\<open>Director.mjs\<close>.
\<close>

record person_obj =
  o_class :: pclass
  o_personId :: jsval
  o_name :: jsval
  o_agent :: jsval
  o_directedMovies :: "(string \<times> jsval) list option"
  o_actedInMovies :: "(string \<times> jsval) list option"

text \<open>A Movie object: its underscore-prefixed fields. A field never assigned reads as
  \<^verbatim>\<open>undefined\<close>. The director is a reference to an object of the heap, the actor map
  has such a reference, or \<^verbatim>\<open>undefined\<close>, under each of its keys. A movie itself is
  referred to by its entry of \<^verbatim>\<open>Movie.instances\<close> only, which holds it as a value.\<close>

record movie =
  m_movieID :: jsval
  m_title :: jsval
  m_releaseDate :: "jsdate option"
  m_director :: "addr option"
  m_actor :: "(string \<times> addr option) list option"
  m_category :: jsval
  m_tvSeriesName :: jsval
  m_episodeNo :: jsval
  m_about :: jsval

definition blank_movie :: movie where
  "blank_movie = \<lparr> m_movieID = JUndefined, m_title = JUndefined, m_releaseDate = None,
     m_director = None, m_actor = None, m_category = JUndefined,
     m_tvSeriesName = JUndefined, m_episodeNo = JUndefined, m_about = JUndefined \<rparr>"

text \<open>The slots record a Movie is constructed or updated from, which is also the form
  of a stored movie record.\<close>

record slots =
  s_movieID :: jsval
  s_title :: jsval
  s_releaseDate :: "jsdate option"
  s_director :: jsval
  s_actor :: jsval
  s_category :: jsval
  s_tvSeriesName :: jsval
  s_episodeNo :: jsval
  s_about :: jsval

text \<open>The item \<^verbatim>\<open>localStorage["movies"]\<close>: missing, a text \<^verbatim>\<open>JSON.parse\<close> rejects, or
  the parsed map from keys to movie records (\<open>None\<close> for a record that is \<^verbatim>\<open>null\<close>).\<close>

datatype storage_item = Missing | Unparsable | Records "(string \<times> slots option) list"

text \<open>The program state. An entry of \<^verbatim>\<open>Movie.instances\<close> is a movie or \<^verbatim>\<open>null\<close>
  (\<open>None\<close>). Output to the console is not part of the state.\<close>

record state =
  heap :: "addr \<Rightarrow> person_obj"
  Person_instances :: "(string \<times> addr) list"
  Director_instances :: "(string \<times> addr) list"
  Actor_instances :: "(string \<times> addr) list"
  Movie_instances :: "(string \<times> movie option) list"
  localStorage_movies :: storage_item

section \<open>Person: the identifier checks\<close>

text \<open>\<^verbatim>\<open>Person.checkPersonId\<close>: a falsy value passes ("may be optional as an IdRef");
  of the number \<^verbatim>\<open>parseInt\<close> returns, the test \<^verbatim>\<open>Number.isInteger\<close> fails only for
  \<^verbatim>\<open>NaN\<close>.\<close>

definition checkPersonId :: "jsval \<Rightarrow> violation" where
  "checkPersonId id' =
     (if \<not> js_truthy id' then NoConstraintViolation
      else case js_parseInt id' of
             None \<Rightarrow> RangeConstraintViolation
           | Some n \<Rightarrow> if n < 1 then RangeConstraintViolation else NoConstraintViolation)"

definition instances_of :: "pclass \<Rightarrow> state \<Rightarrow> (string \<times> addr) list" where
  "instances_of c st =
     (case c of PersonClass \<Rightarrow> Person_instances st
      | DirectorClass \<Rightarrow> Director_instances st
      | ActorClass \<Rightarrow> Actor_instances st)"

text \<open>\<^verbatim>\<open>Person.checkPersonIdAsId(id, DirectType)\<close>; a missing \<^verbatim>\<open>DirectType\<close> is
  \<^verbatim>\<open>Person\<close>. An entry of a collection is an object, hence truthy.\<close>

definition checkPersonIdAsId :: "jsval \<Rightarrow> pclass option \<Rightarrow> state \<Rightarrow> violation" where
  "checkPersonIdAsId id' DirectType st =
     (let DirectType' = (case DirectType of None \<Rightarrow> PersonClass | Some c \<Rightarrow> c)
      in case js_parseInt id' of
           None \<Rightarrow> MandatoryValueConstraintViolation
         | Some n \<Rightarrow>
             (let validationResult = checkPersonId (JNum n)
              in if validationResult = NoConstraintViolation
                 then (if map_of (instances_of DirectType' st) (js_ToString (JNum n)) \<noteq> None
                       then UniquenessConstraintViolation
                       else NoConstraintViolation)
                 else validationResult))"

text \<open>\<^verbatim>\<open>Person.checkPersonIdAsIdRef\<close>.\<close>

definition checkPersonIdAsIdRef :: "jsval \<Rightarrow> state \<Rightarrow> violation" where
  "checkPersonIdAsIdRef id' st =
     (let validationResult = checkPersonId id'
      in if validationResult = NoConstraintViolation \<and> js_truthy id'
         then (if map_of (Person_instances st) (js_ToString id') = None
               then ReferentialIntegrityConstraintViolation
               else validationResult)
         else validationResult)"

text \<open>The setter \<^verbatim>\<open>set personId\<close>; \<^verbatim>\<open>this.constructor\<close> is the class of the object.\<close>

definition set_personId :: "jsval \<Rightarrow> person_obj \<Rightarrow> state \<Rightarrow> exn + person_obj" where
  "set_personId id' this st =
     (let validationResult = checkPersonIdAsId id' (Some (o_class this)) st
      in if validationResult = NoConstraintViolation
         then Inr (this\<lparr> o_personId := num_of (js_parseInt id') \<rparr>)
         else Inl (Violation validationResult))"

section \<open>Movie: checks and setters\<close>

text \<open>A setter without effect on other objects returns the changed movie, or the
  exception it throws (\<open>Inl\<close>), in which case the object is as before.\<close>

definition checkMovieID :: "jsval \<Rightarrow> violation" where
  "checkMovieID movieID =
     (if \<not> js_truthy movieID then NoConstraintViolation
      else if js_typeof movieID \<noteq> ''string'' \<or> trim_is_empty (js_ToString movieID)
      then RangeConstraintViolation
      else NoConstraintViolation)"

text \<open>\<^verbatim>\<open>movieID in Movie.instances\<close> holds of every key of the collection, also of
  one whose entry is \<^verbatim>\<open>null\<close>.\<close>

definition checkMovieIDAsId :: "jsval \<Rightarrow> state \<Rightarrow> violation" where
  "checkMovieIDAsId movieID st =
     (let validationResult = checkMovieID movieID
      in if validationResult = NoConstraintViolation
         then (if \<not> js_truthy movieID then MandatoryValueConstraintViolation
               else if map_of (Movie_instances st) (js_ToString movieID) \<noteq> None
               then UniquenessConstraintViolation
               else NoConstraintViolation)
         else validationResult)"

definition set_movieID :: "jsval \<Rightarrow> movie \<Rightarrow> state \<Rightarrow> exn + movie" where
  "set_movieID movieID this st =
     (let validationResult = checkMovieIDAsId movieID st
      in if validationResult = NoConstraintViolation
         then Inr (this\<lparr> m_movieID := movieID \<rparr>)
         else Inl (Violation validationResult))"

definition checkTitle :: "jsval \<Rightarrow> violation" where
  "checkTitle t =
     (if \<not> js_truthy t then MandatoryValueConstraintViolation
      else if js_typeof t \<noteq> ''string'' \<or> trim_is_empty (js_ToString t)
      then RangeConstraintViolation
      else if \<not> matches_max120 (js_ToString t) then PatternConstraintViolation
      else NoConstraintViolation)"

definition set_title :: "jsval \<Rightarrow> movie \<Rightarrow> exn + movie" where
  "set_title t this =
     (let validationResult = checkTitle t
      in if validationResult = NoConstraintViolation
         then Inr (this\<lparr> m_title := t \<rparr>)
         else Inl (Violation validationResult))"

text \<open>
  \<^verbatim>\<open>Movie.checkReleaseDate\<close>. The module imports seven classes from
  \<^verbatim>\<open>lib/errorTypes.mjs\<close> (lines 10--12) and \<^verbatim>\<open>IntervalConstraintViolation\<close> is not one
  of them, so evaluating \<^verbatim>\<open>new IntervalConstraintViolation(...)\<close> throws a
  \<^verbatim>\<open>ReferenceError\<close>: the function returns a violation, or throws. After
  \<^verbatim>\<open>y = new Date(y)\<close> the test on \<^verbatim>\<open>y.getMonth\<close> never succeeds.
\<close>

definition YEAR_FIRST_MOVIE :: jsdate where
  "YEAR_FIRST_MOVIE = Date_ymd 1895 12 28"

definition checkReleaseDate :: "jsdate option \<Rightarrow> exn + violation" where
  "checkReleaseDate y =
     (case y of
        None \<Rightarrow> Inr MandatoryValueConstraintViolation
      | Some d \<Rightarrow>
          if date_less d YEAR_FIRST_MOVIE then Inl ReferenceError
          else Inr NoConstraintViolation)"

definition set_releaseDate :: "jsdate option \<Rightarrow> movie \<Rightarrow> exn + movie" where
  "set_releaseDate y this =
     (case checkReleaseDate y of
        Inl e \<Rightarrow> Inl e
      | Inr validationResult \<Rightarrow>
          if validationResult = NoConstraintViolation
          then Inr (this\<lparr> m_releaseDate := y \<rparr>)
          else Inl (Violation validationResult))"

text \<open>\<^verbatim>\<open>Movie.checkDirector\<close> and \<^verbatim>\<open>Movie.checkActor\<close>: defined by the class, called by
  none of its setters.\<close>

definition checkDirector :: "jsval \<Rightarrow> state \<Rightarrow> violation" where
  "checkDirector director_id st =
     (if \<not> js_truthy director_id then NoConstraintViolation
      else checkPersonIdAsIdRef director_id st)"

definition checkActor :: "jsval \<Rightarrow> state \<Rightarrow> violation" where
  "checkActor person_id st =
     (if \<not> js_truthy person_id then NoConstraintViolation
      else checkPersonIdAsIdRef person_id st)"

subsection \<open>The director reference\<close>

text \<open>A setter that changes other objects returns the exception it throws, if any, the
  movie and the state as they are when it returns or throws.\<close>

type_synonym outcome = "exn option \<times> movie \<times> state"

text \<open>\<^verbatim>\<open>delete obj.directedMovies[key]\<close> and \<^verbatim>\<open>obj.directedMovies[key] = v\<close> for the
  object at an address: a \<^verbatim>\<open>TypeError\<close> when \<^verbatim>\<open>directedMovies\<close> is undefined.\<close>

definition delete_directedMovies :: "addr \<Rightarrow> string \<Rightarrow> state \<Rightarrow> exn + state" where
  "delete_directedMovies a key st =
     (case o_directedMovies (heap st a) of
        None \<Rightarrow> Inl TypeError
      | Some dm \<Rightarrow>
          Inr (st\<lparr> heap := (heap st)(a := (heap st a)\<lparr> o_directedMovies := Some (AList.delete key dm) \<rparr>) \<rparr>))"

definition put_directedMovies :: "addr \<Rightarrow> string \<Rightarrow> jsval \<Rightarrow> state \<Rightarrow> exn + state" where
  "put_directedMovies a key v st =
     (case o_directedMovies (heap st a) of
        None \<Rightarrow> Inl TypeError
      | Some dm \<Rightarrow>
          Inr (st\<lparr> heap := (heap st)(a := (heap st a)\<lparr> o_directedMovies := Some (AList.update key v dm) \<rparr>) \<rparr>))"

text \<open>The identifier the setter reads from its argument: the first element of an array,
  and of an object its \<^verbatim>\<open>personId\<close>.\<close>

definition director_id_of :: "jsval \<Rightarrow> exn + jsval" where
  "director_id_of p =
     (let p' = (case p of JArr xs \<Rightarrow> (case xs of [] \<Rightarrow> JUndefined | x # r \<Rightarrow> x) | _ \<Rightarrow> p)
      in if js_typeof p' \<noteq> ''object'' then Inr p' else get_personId p')"

text \<open>\<^verbatim>\<open>set director(p)\<close> (lines 139--155).\<close>

definition set_director :: "jsval \<Rightarrow> movie \<Rightarrow> state \<Rightarrow> outcome" where
  "set_director p this st =
     (if \<not> js_truthy p then
        (case m_director this of
           None \<Rightarrow> (None, this, st)
         | Some old \<Rightarrow>
             (case delete_directedMovies old (js_ToString (m_movieID this)) st of
                Inl e \<Rightarrow> (Some e, this, st)
              | Inr st1 \<Rightarrow> (None, this\<lparr> m_director := None \<rparr>, st1)))
      else
        (case director_id_of p of
           Inl e \<Rightarrow> (Some e, this, st)
         | Inr director_id \<Rightarrow>
             (case (case m_director this of
                      None \<Rightarrow> Inr st
                    | Some old \<Rightarrow> delete_directedMovies old (js_ToString (m_movieID this)) st) of
                Inl e \<Rightarrow> (Some e, this, st)
              | Inr st1 \<Rightarrow>
                  (let this1 = this\<lparr> m_director :=
                                 map_of (Director_instances st1) (js_ToString director_id) \<rparr>
                   in case m_director this1 of
                        None \<Rightarrow> (Some TypeError, this1, st1)
                      | Some a \<Rightarrow>
                          (case put_directedMovies a (js_ToString (m_movieID this1))
                                  (m_movieID this1) st1 of
                             Inl e \<Rightarrow> (Some e, this1, st1)
                           | Inr st2 \<Rightarrow> (None, this1, st2))))))"

subsection \<open>The actor references\<close>

definition delete_actedInMovies :: "addr \<Rightarrow> string \<Rightarrow> state \<Rightarrow> exn + state" where
  "delete_actedInMovies a key st =
     (case o_actedInMovies (heap st a) of
        None \<Rightarrow> Inl TypeError
      | Some am \<Rightarrow>
          Inr (st\<lparr> heap := (heap st)(a := (heap st a)\<lparr> o_actedInMovies := Some (AList.delete key am) \<rparr>) \<rparr>))"

definition put_actedInMovies :: "addr \<Rightarrow> string \<Rightarrow> jsval \<Rightarrow> state \<Rightarrow> exn + state" where
  "put_actedInMovies a key v st =
     (case o_actedInMovies (heap st a) of
        None \<Rightarrow> Inl TypeError
      | Some am \<Rightarrow>
          Inr (st\<lparr> heap := (heap st)(a := (heap st a)\<lparr> o_actedInMovies := Some (AList.update key v am) \<rparr>) \<rparr>))"

text \<open>The identifier \<^verbatim>\<open>addPerson\<close> and \<^verbatim>\<open>removePerson\<close> read from their argument.\<close>

definition person_id_of :: "jsval \<Rightarrow> exn + jsval" where
  "person_id_of a =
     (if js_typeof a \<noteq> ''object'' then Inr (num_of (js_parseInt a)) else get_personId a)"

text \<open>\<^verbatim>\<open>addPerson(a)\<close> (lines 170--179): the entry of \<^verbatim>\<open>Actor.instances\<close>, defined or
  not, is stored under the key before its \<^verbatim>\<open>actedInMovies\<close> is read.\<close>

definition addPerson :: "jsval \<Rightarrow> movie \<Rightarrow> state \<Rightarrow> outcome" where
  "addPerson a this st =
     (case person_id_of a of
        Inl e \<Rightarrow> (Some e, this, st)
      | Inr person_id \<Rightarrow>
          if js_truthy person_id then
            (case m_actor this of
               None \<Rightarrow> (Some TypeError, this, st)
             | Some actors \<Rightarrow>
                 (let key = js_ToString person_id;
                      entry = map_of (Actor_instances st) key;
                      this1 = this\<lparr> m_actor := Some (AList.update key entry actors) \<rparr>
                  in case entry of
                       None \<Rightarrow> (Some TypeError, this1, st)
                     | Some b \<Rightarrow>
                         (case put_actedInMovies b (js_ToString (m_movieID this1))
                                 (m_movieID this1) st of
                            Inl e \<Rightarrow> (Some e, this1, st)
                          | Inr st1 \<Rightarrow> (None, this1, st1))))
          else (None, this, st))"

text \<open>\<^verbatim>\<open>removePerson(a)\<close> (lines 180--189).\<close>

definition removePerson :: "jsval \<Rightarrow> movie \<Rightarrow> state \<Rightarrow> outcome" where
  "removePerson a this st =
     (case person_id_of a of
        Inl e \<Rightarrow> (Some e, this, st)
      | Inr person_id \<Rightarrow>
          if js_truthy person_id then
            (case m_actor this of
               None \<Rightarrow> (Some TypeError, this, st)
             | Some actors \<Rightarrow>
                 (case map_of actors (js_ToString person_id) of
                    Some (Some b) \<Rightarrow>
                      (case delete_actedInMovies b (js_ToString (m_movieID this)) st of
                         Inl e \<Rightarrow> (Some e, this, st)
                       | Inr st1 \<Rightarrow>
                           (None,
                            this\<lparr> m_actor := Some (AList.delete (js_ToString person_id) actors) \<rparr>,
                            st1))
                  | _ \<Rightarrow> (Some TypeError, this, st)))
          else (None, this, st))"

text \<open>The loop over the references: the first exception ends it.\<close>

fun addPersons :: "jsval list \<Rightarrow> movie \<Rightarrow> state \<Rightarrow> outcome" where
  "addPersons [] this st = (None, this, st)"
| "addPersons (a # as) this st =
     (case addPerson a this st of
        (Some e, this1, st1) \<Rightarrow> (Some e, this1, st1)
      | (None, this1, st1) \<Rightarrow> addPersons as this1 st1)"

text \<open>The values \<^verbatim>\<open>a[k]\<close> for the keys \<^verbatim>\<open>k\<close> of \<^verbatim>\<open>Object.keys(a)\<close>: of a string its
  characters, of a number or a boolean none; \<^verbatim>\<open>Object.keys\<close> of \<^verbatim>\<open>undefined\<close> or
  \<^verbatim>\<open>null\<close> throws.\<close>

definition values_by_key :: "jsval \<Rightarrow> exn + jsval list" where
  "values_by_key a =
     (case a of
        JUndefined \<Rightarrow> Inl TypeError
      | JNull \<Rightarrow> Inl TypeError
      | JStr s \<Rightarrow> Inr (map (\<lambda>c. JStr [c]) s)
      | JArr xs \<Rightarrow> Inr xs
      | JObj kvs \<Rightarrow> Inr (map snd kvs)
      | _ \<Rightarrow> Inr [])"

text \<open>\<^verbatim>\<open>set actor(a)\<close> (lines 190--201).\<close>

definition set_actor :: "jsval \<Rightarrow> movie \<Rightarrow> state \<Rightarrow> outcome" where
  "set_actor a this st =
     (let this0 = this\<lparr> m_actor := Some [] \<rparr>
      in if js_isArray a then
           (case a of JArr xs \<Rightarrow> addPersons xs this0 st | _ \<Rightarrow> (None, this0, st))
         else
           (case values_by_key a of
              Inl e \<Rightarrow> (Some e, this0, st)
            | Inr vs \<Rightarrow> addPersons vs this0 st))"

subsection \<open>The category and the fields that depend on it\<close>

definition checkCategory :: "jsval \<Rightarrow> violation" where
  "checkCategory c =
     (if c = JUndefined then NoConstraintViolation
      else if \<not> isIntegerOrIntegerString c
              \<or> (case js_parseInt c of None \<Rightarrow> False | Some n \<Rightarrow> n < 1)
              \<or> (case js_parseInt c of None \<Rightarrow> False | Some n \<Rightarrow> n > MovieCategoryEL_MAX)
      then RangeConstraintViolation
      else NoConstraintViolation)"

text \<open>\<^verbatim>\<open>set category(c)\<close> (lines 214--227).\<close>

definition set_category :: "jsval \<Rightarrow> movie \<Rightarrow> exn + movie" where
  "set_category c this =
     (let validationResult =
            (if js_truthy (m_category this) then FrozenValueConstraintViolation
             else checkCategory c)
      in if validationResult = NoConstraintViolation
         then Inr (this\<lparr> m_category := num_of (js_parseInt c) \<rparr>)
         else Inl (Violation validationResult))"

definition checkTvSeriesName :: "jsval \<Rightarrow> violation" where
  "checkTvSeriesName t =
     (if \<not> js_truthy t then MandatoryValueConstraintViolation
      else if js_typeof t \<noteq> ''string'' \<or> trim_is_empty (js_ToString t)
      then RangeConstraintViolation
      else NoConstraintViolation)"

definition set_tvSeriesName :: "jsval \<Rightarrow> movie \<Rightarrow> exn + movie" where
  "set_tvSeriesName t this =
     (let validationResult = checkTvSeriesName t
      in if validationResult = NoConstraintViolation
         then Inr (this\<lparr> m_tvSeriesName := t \<rparr>)
         else Inl (Violation validationResult))"

text \<open>\<^verbatim>\<open>Movie.checkEpisodeNo(sA, c)\<close> (lines 248--264).\<close>

definition checkEpisodeNo :: "jsval \<Rightarrow> jsval \<Rightarrow> violation" where
  "checkEpisodeNo sA c =
     (let cat = js_parseInt c
      in if cat = Some TVSERIESEPISODE \<and> \<not> js_truthy sA
         then MandatoryValueConstraintViolation
         else if cat \<noteq> Some TVSERIESEPISODE \<and> js_truthy sA
         then ConstraintViolation
         else if js_truthy sA
                 \<and> (\<not> isIntegerOrIntegerString sA
                    \<or> (case js_parseInt sA of None \<Rightarrow> False | Some n \<Rightarrow> n < 1))
         then RangeConstraintViolation
         else NoConstraintViolation)"

definition set_episodeNo :: "jsval \<Rightarrow> movie \<Rightarrow> exn + movie" where
  "set_episodeNo v this =
     (let validationResult = checkEpisodeNo v (m_category this)
      in if validationResult = NoConstraintViolation
         then Inr (this\<lparr> m_episodeNo := v \<rparr>)
         else Inl (Violation validationResult))"

text \<open>\<^verbatim>\<open>Movie.checkAbout(a, c)\<close> (lines 274--289).\<close>

definition checkAbout :: "jsval \<Rightarrow> jsval \<Rightarrow> violation" where
  "checkAbout a c =
     (let cat = js_parseInt c
      in if cat = Some BIOGRAPHY \<and> \<not> js_truthy a
         then MandatoryValueConstraintViolation
         else if cat \<noteq> Some BIOGRAPHY \<and> js_truthy a
         then ConstraintViolation
         else if js_truthy a \<and> (js_typeof a \<noteq> ''string'' \<or> trim_is_empty (js_ToString a))
         then RangeConstraintViolation
         else NoConstraintViolation)"

definition set_about :: "jsval \<Rightarrow> movie \<Rightarrow> exn + movie" where
  "set_about v this =
     (let validationResult = checkAbout v (m_category this)
      in if validationResult = NoConstraintViolation
         then Inr (this\<lparr> m_about := v \<rparr>)
         else Inl (Violation validationResult))"

section \<open>Movie: construction and the collection operations\<close>

text \<open>Running a step after an outcome: an exception ends the sequence.\<close>

definition and_then :: "outcome \<Rightarrow> (movie \<Rightarrow> state \<Rightarrow> outcome) \<Rightarrow> outcome" where
  "and_then r f =
     (case r of
        (Some e, this, st) \<Rightarrow> (Some e, this, st)
      | (None, this, st) \<Rightarrow> f this st)"

text \<open>The outcome of a setter that changes the movie only.\<close>

definition assigned :: "exn + movie \<Rightarrow> movie \<Rightarrow> state \<Rightarrow> outcome" where
  "assigned r this st = (case r of Inl e \<Rightarrow> (Some e, this, st) | Inr this1 \<Rightarrow> (None, this1, st))"

text \<open>The constructor (lines 29--40): the assignments in the order of the source, the
  optional properties only when their slot is truthy.\<close>

definition Movie_new :: "slots \<Rightarrow> state \<Rightarrow> outcome" where
  "Movie_new s st0 =
     and_then (and_then (and_then (and_then (and_then (and_then (and_then (and_then
       (assigned (set_movieID (s_movieID s) blank_movie st0) blank_movie st0)
       (\<lambda>this st. assigned (set_title (s_title s) this) this st))
       (\<lambda>this st. assigned (set_releaseDate (s_releaseDate s) this) this st))
       (\<lambda>this st. set_director (s_director s) this st))
       (\<lambda>this st. set_actor (s_actor s) this st))
       (\<lambda>this st. if js_truthy (s_category s)
                   then assigned (set_category (s_category s) this) this st
                   else (None, this, st)))
       (\<lambda>this st. if js_truthy (s_tvSeriesName s)
                   then assigned (set_tvSeriesName (s_tvSeriesName s) this) this st
                   else (None, this, st)))
       (\<lambda>this st. if js_truthy (s_episodeNo s)
                   then assigned (set_episodeNo (s_episodeNo s) this) this st
                   else (None, this, st)))
       (\<lambda>this st. if js_truthy (s_about s)
                   then assigned (set_about (s_about s) this) this st
                   else (None, this, st))"

text \<open>\<^verbatim>\<open>Movie.add\<close> (lines 338--350): an exception of the constructor is caught and
  nothing is inserted.\<close>

definition Movie_add :: "slots \<Rightarrow> state \<Rightarrow> state" where
  "Movie_add s st =
     (case Movie_new s st of
        (Some e, this, st1) \<Rightarrow> st1
      | (None, this, st1) \<Rightarrow>
          st1\<lparr> Movie_instances :=
                 AList.update (js_ToString (m_movieID this)) (Some this) (Movie_instances st1) \<rparr>)"

text \<open>\<^verbatim>\<open>Movie.destroy\<close> (lines 421--428).\<close>

definition Movie_destroy :: "jsval \<Rightarrow> state \<Rightarrow> state" where
  "Movie_destroy movieID st =
     (case map_of (Movie_instances st) (js_ToString movieID) of
        Some (Some this) \<Rightarrow>
          st\<lparr> Movie_instances := AList.delete (js_ToString movieID) (Movie_instances st) \<rparr>
      | _ \<Rightarrow> st)"

subsection \<open>Update\<close>

text \<open>
  The body of the \<^verbatim>\<open>try\<close> block of \<^verbatim>\<open>Movie.update\<close> (lines 364--399), applied to the
  movie found in the collection: its seven conditional statements, one definition each,
  run in the order of the source. The stored release date, director and actor map are
  objects, which no slot value is identical to, so for these the test \<^verbatim>\<open>!==\<close> holds
  whenever the slot is truthy. \<^verbatim>\<open>"category" in movie\<close> holds of every movie, the class
  defining the property.
\<close>

definition update_title :: "slots \<Rightarrow> movie \<Rightarrow> state \<Rightarrow> outcome" where
  "update_title s movie st =
     (if js_truthy (s_title s) \<and> \<not> js_strict_eq (m_title movie) (s_title s)
      then assigned (set_title (s_title s) movie) movie st
      else (None, movie, st))"

definition update_releaseDate :: "slots \<Rightarrow> movie \<Rightarrow> state \<Rightarrow> outcome" where
  "update_releaseDate s movie st =
     (if s_releaseDate s \<noteq> None
      then assigned (set_releaseDate (s_releaseDate s) movie) movie st
      else (None, movie, st))"

definition update_director :: "slots \<Rightarrow> movie \<Rightarrow> state \<Rightarrow> outcome" where
  "update_director s movie st =
     (if js_truthy (s_director s) then set_director (s_director s) movie st
      else (None, movie, st))"

definition update_actor :: "slots \<Rightarrow> movie \<Rightarrow> state \<Rightarrow> outcome" where
  "update_actor s movie st =
     (if js_truthy (s_actor s) then set_actor (s_actor s) movie st
      else (None, movie, st))"

definition update_category :: "slots \<Rightarrow> movie \<Rightarrow> state \<Rightarrow> outcome" where
  "update_category s movie st =
     (if js_truthy (s_category s) then
        (if js_strict_eq (m_category movie) JUndefined
         then assigned (set_category (s_category s) movie) movie st
         else if \<not> js_strict_eq (s_category s) (m_category movie)
         then (Some (Violation FrozenValueConstraintViolation), movie, st)
         else (None, movie, st))
      else if js_strict_eq (s_category s) (JStr [])
      then (Some (Violation FrozenValueConstraintViolation), movie, st)
      else (None, movie, st))"

definition update_episodeNo :: "slots \<Rightarrow> movie \<Rightarrow> state \<Rightarrow> outcome" where
  "update_episodeNo s movie st =
     (if js_truthy (s_episodeNo s) \<and> \<not> js_strict_eq (m_episodeNo movie) (s_episodeNo s)
      then assigned (set_episodeNo (s_episodeNo s) movie) movie st
      else (None, movie, st))"

definition update_about :: "slots \<Rightarrow> movie \<Rightarrow> state \<Rightarrow> outcome" where
  "update_about s movie st =
     (if js_truthy (s_about s) \<and> \<not> js_strict_eq (m_about movie) (s_about s)
      then assigned (set_about (s_about s) movie) movie st
      else (None, movie, st))"

definition update_body :: "slots \<Rightarrow> movie \<Rightarrow> state \<Rightarrow> outcome" where
  "update_body s movie st =
     and_then (and_then (and_then (and_then (and_then (and_then
       (update_title s movie st)
       (update_releaseDate s))
       (update_director s))
       (update_actor s))
       (update_category s))
       (update_episodeNo s))
       (update_about s)"

text \<open>
  Modelled from the spec: \<^verbatim>\<open>cloneObject\<close> of \<^verbatim>\<open>lib/util.mjs\<close> is not among the sources.
  It takes the snapshot of the spec's update ("look up the existing instance by
  identifier; snapshot it"): a new object with the fields of the given one, as they are
  when it is called.
\<close>

definition cloneObject :: "movie \<Rightarrow> movie" where
  "cloneObject obj = obj"

text \<open>
  \<^verbatim>\<open>Movie.update\<close> (lines 359--414). An exception of the \<^verbatim>\<open>try\<close> block is caught and
  the snapshot is stored under the identifier; otherwise the entry is the object the
  setters have changed. When the collection has no movie under the identifier there is
  no object to copy or to read the fields of, and the call ends with a \<^verbatim>\<open>TypeError\<close>.
  The result is the exception that leaves the function, if any, and the state.
\<close>

definition Movie_update :: "slots \<Rightarrow> state \<Rightarrow> exn option \<times> state" where
  "Movie_update s st =
     (case map_of (Movie_instances st) (js_ToString (s_movieID s)) of
        Some (Some movie0) \<Rightarrow>
          (let objectBeforeUpdate = cloneObject movie0
           in case update_body s movie0 st of
                (Some e, this, st1) \<Rightarrow>
                  (None, st1\<lparr> Movie_instances :=
                     AList.update (js_ToString (s_movieID s)) (Some objectBeforeUpdate)
                       (Movie_instances st1) \<rparr>)
              | (None, this, st1) \<Rightarrow>
                  (None, st1\<lparr> Movie_instances :=
                     AList.update (js_ToString (s_movieID s)) (Some this)
                       (Movie_instances st1) \<rparr>))
      | _ \<Rightarrow> (Some TypeError, st))"

subsection \<open>Saving and loading\<close>

text \<open>What \<^verbatim>\<open>JSON.stringify\<close> writes for a value: \<^verbatim>\<open>NaN\<close> as \<^verbatim>\<open>null\<close>, an undefined
  array element as \<^verbatim>\<open>null\<close>, and no property whose value is undefined.\<close>

fun js_JSON :: "jsval \<Rightarrow> jsval" where
  "js_JSON JNaN = JNull"
| "js_JSON (JArr xs) = JArr (map (\<lambda>x. if x = JUndefined then JNull else js_JSON x) xs)"
| "js_JSON (JObj kvs) =
     JObj (map (\<lambda>kv. (fst kv, js_JSON (snd kv))) (filter (\<lambda>kv. snd kv \<noteq> JUndefined) kvs))"
| "js_JSON v = v"

text \<open>\<^verbatim>\<open>Person.prototype.toJSON\<close>, which Director inherits: every underscore-prefixed
  field under its name without the underscore, as \<^verbatim>\<open>JSON.stringify\<close> writes it.\<close>

definition Person_toJSON :: "person_obj \<Rightarrow> jsval" where
  "Person_toJSON this =
     js_JSON (JObj [(''personId'', o_personId this), (''name'', o_name this),
       (''agent'', o_agent this),
       (''directedMovies'',
          case o_directedMovies this of None \<Rightarrow> JUndefined | Some dm \<Rightarrow> JObj dm),
       (''actedInMovies'',
          case o_actedInMovies this of None \<Rightarrow> JUndefined | Some am \<Rightarrow> JObj am)])"

text \<open>
  \<^verbatim>\<open>Movie.prototype.toJSON\<close> (lines 314--321) copies every underscore-prefixed field
  to the record, the director object and the actor map among them, as they are;
  \<^verbatim>\<open>JSON.stringify\<close> then writes each referenced person through its own \<^verbatim>\<open>toJSON\<close>
  and an invalid date as \<^verbatim>\<open>null\<close>. The result is the record as it is stored.
\<close>

definition Movie_toJSON :: "state \<Rightarrow> movie \<Rightarrow> slots" where
  "Movie_toJSON st this =
     \<lparr> s_movieID = js_JSON (m_movieID this),
       s_title = js_JSON (m_title this),
       s_releaseDate = (case m_releaseDate this of
                          Some InvalidDate \<Rightarrow> None
                        | d \<Rightarrow> d),
       s_director = (case m_director this of
                       None \<Rightarrow> JUndefined
                     | Some a \<Rightarrow> Person_toJSON (heap st a)),
       s_actor = (case m_actor this of
                    None \<Rightarrow> JUndefined
                  | Some actors \<Rightarrow>
                      js_JSON (JObj (map (\<lambda>kv. (fst kv,
                         case snd kv of None \<Rightarrow> JUndefined
                         | Some b \<Rightarrow> Person_toJSON (heap st b))) actors))),
       s_category = js_JSON (m_category this),
       s_tvSeriesName = js_JSON (m_tvSeriesName this),
       s_episodeNo = js_JSON (m_episodeNo this),
       s_about = js_JSON (m_about this) \<rparr>"

text \<open>\<^verbatim>\<open>Movie.saveAll\<close> (lines 471--482).\<close>

definition Movie_saveAll :: "state \<Rightarrow> state" where
  "Movie_saveAll st =
     st\<lparr> localStorage_movies :=
           Records (map (\<lambda>kv. (fst kv, map_option (Movie_toJSON st) (snd kv)))
                      (Movie_instances st)) \<rparr>"

text \<open>\<^verbatim>\<open>Movie.convertRec2Obj\<close> (lines 457--465): the movie, or \<^verbatim>\<open>null\<close> when the
  constructor throws (as it does on a record that is \<^verbatim>\<open>null\<close>).\<close>

definition Movie_convertRec2Obj :: "slots option \<Rightarrow> state \<Rightarrow> movie option \<times> state" where
  "Movie_convertRec2Obj movieRow st =
     (case movieRow of
        None \<Rightarrow> (None, st)
      | Some s \<Rightarrow>
          (case Movie_new s st of
             (Some e, this, st1) \<Rightarrow> (None, st1)
           | (None, this, st1) \<Rightarrow> (Some this, st1)))"

text \<open>The loop of \<^verbatim>\<open>Movie.retrieveAll\<close> over the keys of the parsed records.\<close>

fun retrieve_loop :: "(string \<times> slots option) list \<Rightarrow> state \<Rightarrow> state" where
  "retrieve_loop [] st = st"
| "retrieve_loop ((movieID, movieRow) # rest) st =
     (case Movie_convertRec2Obj movieRow st of
        (entry, st1) \<Rightarrow>
          retrieve_loop rest
            (st1\<lparr> Movie_instances := AList.update movieID entry (Movie_instances st1) \<rparr>))"

text \<open>\<^verbatim>\<open>Movie.retrieveAll\<close> (lines 435--449).\<close>

definition Movie_retrieveAll :: "state \<Rightarrow> state" where
  "Movie_retrieveAll st =
     (case localStorage_movies st of
        Missing \<Rightarrow> retrieve_loop [] (st\<lparr> localStorage_movies := Records [] \<rparr>)
      | Unparsable \<Rightarrow> retrieve_loop [] st
      | Records movies \<Rightarrow> retrieve_loop movies st)"

section \<open>A test population\<close>

text \<open>The population of the spec's scenario: director 2 and the actors 3 and 4, all
  three also in \<^verbatim>\<open>Person.instances\<close>, and no movie.\<close>

definition director2 :: person_obj where
  "director2 = \<lparr> o_class = DirectorClass, o_personId = JNum 2, o_name = JStr ''George Lucas'',
     o_agent = JUndefined, o_directedMovies = Some [], o_actedInMovies = None \<rparr>"

definition actor3 :: person_obj where
  "actor3 = \<lparr> o_class = ActorClass, o_personId = JNum 3, o_name = JStr ''Quentin Tarantino'',
     o_agent = JUndefined, o_directedMovies = None, o_actedInMovies = Some [] \<rparr>"

definition actor4 :: person_obj where
  "actor4 = \<lparr> o_class = ActorClass, o_personId = JNum 4, o_name = JStr ''Uma Thurman'',
     o_agent = JNum 15, o_directedMovies = None, o_actedInMovies = Some [] \<rparr>"

definition population :: state where
  "population = \<lparr> heap = (\<lambda>a. if a = 0 then director2 else if a = 1 then actor3 else actor4),
     Person_instances = [(''2'', 0), (''3'', 1), (''4'', 2)],
     Director_instances = [(''2'', 0)],
     Actor_instances = [(''3'', 1), (''4'', 2)],
     Movie_instances = [],
     localStorage_movies = Missing \<rparr>"

text \<open>The movie record of the scenario, and the same record with the release date
  1800-01-01.\<close>

definition slots10 :: slots where
  "slots10 = \<lparr> s_movieID = JStr ''10'', s_title = JStr ''T'',
     s_releaseDate = Some (YMD 1999 1 1), s_director = JArr [JNum 2],
     s_actor = JArr [JNum 3, JNum 4], s_category = JUndefined,
     s_tvSeriesName = JUndefined, s_episodeNo = JUndefined, s_about = JUndefined \<rparr>"

definition slots1800 :: slots where
  "slots1800 = slots10\<lparr> s_releaseDate := Some (YMD 1800 1 1) \<rparr>"

text \<open>The movie of the scenario and the population once it is added: the director and
  both actors hold the movie's identifier.\<close>

definition movie10 :: movie where
  "movie10 = \<lparr> m_movieID = JStr ''10'', m_title = JStr ''T'',
     m_releaseDate = Some (YMD 1999 1 1), m_director = Some 0,
     m_actor = Some [(''3'', Some 1), (''4'', Some 2)], m_category = JUndefined,
     m_tvSeriesName = JUndefined, m_episodeNo = JUndefined, m_about = JUndefined \<rparr>"

definition population10 :: state where
  "population10 = \<lparr> heap = (\<lambda>a.
       if a = 0 then director2\<lparr> o_directedMovies := Some [(''10'', JStr ''10'')] \<rparr>
       else if a = 1 then actor3\<lparr> o_actedInMovies := Some [(''10'', JStr ''10'')] \<rparr>
       else if a = 2 then actor4\<lparr> o_actedInMovies := Some [(''10'', JStr ''10'')] \<rparr>
       else actor4),
     Person_instances = [(''2'', 0), (''3'', 1), (''4'', 2)],
     Director_instances = [(''2'', 0)],
     Actor_instances = [(''3'', 1), (''4'', 2)],
     Movie_instances = [(''10'', Some movie10)],
     localStorage_movies = Missing \<rparr>"

text \<open>A stored collection with a record that fails validation (its title is empty)
  before a valid one, and update records for the movie of the scenario: one that names
  a director nobody has, one that changes the title only.\<close>

definition slots_corrupt :: slots where
  "slots_corrupt = slots10\<lparr> s_movieID := JStr ''1'', s_title := JStr [] \<rparr>"

definition stored_population :: state where
  "stored_population =
     population\<lparr> localStorage_movies := Records [(''1'', Some slots_corrupt), (''10'', Some slots10)] \<rparr>"

definition slots_unknown_director :: slots where
  "slots_unknown_director =
     \<lparr> s_movieID = JStr ''10'', s_title = JStr ''New'', s_releaseDate = None,
       s_director = JNum 99, s_actor = JUndefined, s_category = JUndefined,
       s_tvSeriesName = JUndefined, s_episodeNo = JUndefined, s_about = JUndefined \<rparr>"

definition slots_new_title :: slots where
  "slots_new_title = slots_unknown_director\<lparr> s_director := JUndefined \<rparr>"

section \<open>Properties\<close>

text \<open>The back-reference maps as sets of keys: whether the map of the object at an
  address has the key.\<close>

definition directedMovies_has :: "state \<Rightarrow> addr \<Rightarrow> string \<Rightarrow> bool" where
  "directedMovies_has st a key =
     (case o_directedMovies (heap st a) of None \<Rightarrow> False | Some dm \<Rightarrow> map_of dm key \<noteq> None)"

definition actedInMovies_has :: "state \<Rightarrow> addr \<Rightarrow> string \<Rightarrow> bool" where
  "actedInMovies_has st b key =
     (case o_actedInMovies (heap st b) of None \<Rightarrow> False | Some am \<Rightarrow> map_of am key \<noteq> None)"

text \<open>An outcome whose state has the given collection of movies.\<close>

definition keeps :: "(string \<times> movie option) list \<Rightarrow> outcome \<Rightarrow> bool" where
  "keeps I r = (case r of (e, this, st) \<Rightarrow> Movie_instances st = I)"

subsection \<open>Evaluation\<close>

lemmas js_defs = js_parseInt_def parseInt_string_def is_ws_def digit_val_def string_of_int_def
  string_of_nat.simps digit_char_def num_of_def trim_is_empty_def matches_max120_def
  get_personId_def isIntegerOrIntegerString_def is_decimal_digit_def js_strict_eq_def

lemmas enum_defs = MovieCategoryEL_MAX_def MovieCategoryEL_labels_def TVSERIESEPISODE_def
  BIOGRAPHY_def

lemmas population_defs = population_def director2_def actor3_def actor4_def slots10_def
  slots1800_def blank_movie_def movie10_def population10_def slots_corrupt_def
  stored_population_def slots_unknown_director_def slots_new_title_def

lemmas setter_defs = set_movieID_def checkMovieIDAsId_def checkMovieID_def set_title_def
  checkTitle_def set_releaseDate_def checkReleaseDate_def YEAR_FIRST_MOVIE_def Date_ymd_def
  set_director_def director_id_of_def delete_directedMovies_def put_directedMovies_def
  set_actor_def addPerson_def person_id_of_def put_actedInMovies_def values_by_key_def
  set_category_def checkCategory_def set_tvSeriesName_def checkTvSeriesName_def
  set_episodeNo_def checkEpisodeNo_def set_about_def checkAbout_def
  and_then_def assigned_def

lemmas update_step_defs = update_title_def update_releaseDate_def update_director_def
  update_actor_def update_category_def update_episodeNo_def update_about_def

subsection \<open>Setters change one field and no movie of the collection\<close>

lemma and_then_None:
  "and_then r f = (None, this', st') \<Longrightarrow> \<exists>this1 st1. r = (None, this1, st1) \<and> f this1 st1 = (None, this', st')"
  by (auto simp: and_then_def split: prod.splits option.splits)

lemma assigned_state:
  "assigned x this st = (e, this', st') \<Longrightarrow> st' = st"
  by (auto simp: assigned_def split: sum.splits)

lemma ex_director_update [simp]: "\<exists>d. (m::movie) = m\<lparr> m_director := d \<rparr>"
  by (rule exI[of _ "m_director m"]) simp

lemma ex_actor_update [simp]: "\<exists>x. (m::movie) = m\<lparr> m_actor := x \<rparr>"
  by (rule exI[of _ "m_actor m"]) simp

lemma set_director_frame:
  "set_director p this st = (e, this', st') \<Longrightarrow>
     Movie_instances st' = Movie_instances st \<and> (\<exists>d. this' = this\<lparr> m_director := d \<rparr>)"
  by (auto simp: set_director_def delete_directedMovies_def put_directedMovies_def Let_def
           split: if_splits option.splits sum.splits)

lemma addPerson_frame:
  "addPerson a this st = (e, this', st') \<Longrightarrow>
     Movie_instances st' = Movie_instances st \<and> (\<exists>x. this' = this\<lparr> m_actor := x \<rparr>)"
  by (auto simp: addPerson_def put_actedInMovies_def Let_def
           split: if_splits option.splits sum.splits)

lemma addPersons_frame:
  "addPersons as this st = (e, this', st') \<Longrightarrow>
     Movie_instances st' = Movie_instances st \<and> (\<exists>x. this' = this\<lparr> m_actor := x \<rparr>)"
proof (induction as arbitrary: this st)
  case Nil
  then show ?case by auto
next
  case (Cons a as)
  obtain e1 this1 st1 where a: "addPerson a this st = (e1, this1, st1)"
    by (cases "addPerson a this st") auto
  from addPerson_frame[OF a] obtain x1
    where f1: "Movie_instances st1 = Movie_instances st" "this1 = this\<lparr> m_actor := x1 \<rparr>"
    by auto
  show ?case
  proof (cases e1)
    case None
    with Cons.prems a have "addPersons as this1 st1 = (e, this', st')" by simp
    from Cons.IH[OF this] obtain x
      where "Movie_instances st' = Movie_instances st1" "this' = this1\<lparr> m_actor := x \<rparr>"
      by auto
    with f1 show ?thesis by auto
  next
    case (Some x)
    with Cons.prems a have "this' = this1" "st' = st1" by auto
    with f1 show ?thesis by auto
  qed
qed

lemma set_actor_frame:
  "set_actor a this st = (e, this', st') \<Longrightarrow>
     Movie_instances st' = Movie_instances st \<and> (\<exists>x. this' = this\<lparr> m_actor := x \<rparr>)"
  by (auto simp: set_actor_def Let_def split: if_splits jsval.splits sum.splits
           dest!: addPersons_frame)


lemma keeps_and_then:
  assumes "keeps I r" and "\<And>this st. Movie_instances st = I \<Longrightarrow> keeps I (f this st)"
  shows "keeps I (and_then r f)"
proof -
  obtain e this st where r: "r = (e, this, st)" by (cases r)
  with assms(1) have i: "Movie_instances st = I" by (simp add: keeps_def)
  show ?thesis
  proof (cases e)
    case None
    with r have "and_then r f = f this st" by (simp add: and_then_def)
    with assms(2)[OF i] show ?thesis by simp
  next
    case (Some x)
    with r have "and_then r f = r" by (simp add: and_then_def)
    with assms(1) show ?thesis by simp
  qed
qed

lemma keeps_assigned: "Movie_instances st = I \<Longrightarrow> keeps I (assigned x this st)"
  by (auto simp: keeps_def assigned_def split: sum.splits)

lemma keeps_skip: "Movie_instances st = I \<Longrightarrow> keeps I (e, this, st)"
  by (simp add: keeps_def)

lemma keeps_set_director: "Movie_instances st = I \<Longrightarrow> keeps I (set_director p this st)"
  using set_director_frame[of p this st] by (cases "set_director p this st") (auto simp: keeps_def)

lemma keeps_set_actor: "Movie_instances st = I \<Longrightarrow> keeps I (set_actor a this st)"
  using set_actor_frame[of a this st] by (cases "set_actor a this st") (auto simp: keeps_def)

lemma update_body_keeps: "keeps (Movie_instances st) (update_body s movie0 st)"
  unfolding update_body_def
  by (intro keeps_and_then)
     (simp_all add: update_step_defs keeps_assigned keeps_skip keeps_set_director keeps_set_actor)

lemma update_body_instances:
  "update_body s movie0 st = (e, this, st1) \<Longrightarrow> Movie_instances st1 = Movie_instances st"
  using update_body_keeps[of st s movie0] by (simp add: keeps_def)

lemma map_of_update_present:
  "map_of al k = Some v \<Longrightarrow> map_of (AList.update k v al) = map_of al"
  by (auto simp: update_conv')

lemma update_title_field:
  "update_title s m st = (None, m', st') \<Longrightarrow>
     \<exists>v. m' = m\<lparr> m_title := v \<rparr> \<and> (v \<noteq> m_title m \<longrightarrow> js_truthy (s_title s) \<and> v = s_title s)"
  by (auto simp: update_title_def assigned_def set_title_def Let_def split: if_splits sum.splits
           intro: exI[of _ "m_title m"])

lemma update_releaseDate_field:
  "update_releaseDate s m st = (None, m', st') \<Longrightarrow>
     \<exists>v. m' = m\<lparr> m_releaseDate := v \<rparr>
        \<and> (v \<noteq> m_releaseDate m \<longrightarrow> s_releaseDate s \<noteq> None \<and> v = s_releaseDate s)"
  by (auto simp: update_releaseDate_def assigned_def set_releaseDate_def Let_def
           split: if_splits sum.splits intro: exI[of _ "m_releaseDate m"])

lemma update_director_field:
  "update_director s m st = (None, m', st') \<Longrightarrow>
     \<exists>v. m' = m\<lparr> m_director := v \<rparr> \<and> (v \<noteq> m_director m \<longrightarrow> js_truthy (s_director s))"
  by (auto simp: update_director_def split: if_splits dest!: set_director_frame
           intro: exI[of _ "m_director m"])

lemma update_actor_field:
  "update_actor s m st = (None, m', st') \<Longrightarrow>
     \<exists>v. m' = m\<lparr> m_actor := v \<rparr> \<and> (v \<noteq> m_actor m \<longrightarrow> js_truthy (s_actor s))"
  by (auto simp: update_actor_def split: if_splits dest!: set_actor_frame
           intro: exI[of _ "m_actor m"])

lemma update_category_field:
  "update_category s m st = (None, m', st') \<Longrightarrow>
     \<exists>v. m' = m\<lparr> m_category := v \<rparr>
        \<and> (v \<noteq> m_category m \<longrightarrow> js_truthy (s_category s) \<and> m_category m = JUndefined
              \<and> v = num_of (js_parseInt (s_category s)))"
  by (auto simp: update_category_def assigned_def set_category_def js_strict_eq_def Let_def
           split: if_splits sum.splits intro: exI[of _ "m_category m"])

lemma update_episodeNo_field:
  "update_episodeNo s m st = (None, m', st') \<Longrightarrow>
     \<exists>v. m' = m\<lparr> m_episodeNo := v \<rparr>
        \<and> (v \<noteq> m_episodeNo m \<longrightarrow> js_truthy (s_episodeNo s) \<and> v = s_episodeNo s)"
  by (auto simp: update_episodeNo_def assigned_def set_episodeNo_def Let_def
           split: if_splits sum.splits intro: exI[of _ "m_episodeNo m"])

lemma update_about_field:
  "update_about s m st = (None, m', st') \<Longrightarrow>
     \<exists>v. m' = m\<lparr> m_about := v \<rparr>
        \<and> (v \<noteq> m_about m \<longrightarrow> js_truthy (s_about s) \<and> v = s_about s)"
  by (auto simp: update_about_def assigned_def set_about_def Let_def
           split: if_splits sum.splits intro: exI[of _ "m_about m"])


lemma update_body_steps:
  assumes "update_body s movie0 st = (None, this, st1)"
  shows "\<exists>m1 t1 m2 t2 m3 t3 m4 t4 m5 t5 m6 t6.
           update_title s movie0 st = (None, m1, t1)
         \<and> update_releaseDate s m1 t1 = (None, m2, t2)
         \<and> update_director s m2 t2 = (None, m3, t3)
         \<and> update_actor s m3 t3 = (None, m4, t4)
         \<and> update_category s m4 t4 = (None, m5, t5)
         \<and> update_episodeNo s m5 t5 = (None, m6, t6)
         \<and> update_about s m6 t6 = (None, this, st1)"
proof -
  from assms[unfolded update_body_def] obtain m6 t6 where
    r6: "and_then (and_then (and_then (and_then (and_then (update_title s movie0 st)
           (update_releaseDate s)) (update_director s)) (update_actor s)) (update_category s))
           (update_episodeNo s) = (None, m6, t6)"
    and s7: "update_about s m6 t6 = (None, this, st1)"
    by (drule_tac and_then_None) auto
  from r6 obtain m5 t5 where
    r5: "and_then (and_then (and_then (and_then (update_title s movie0 st)
           (update_releaseDate s)) (update_director s)) (update_actor s)) (update_category s)
           = (None, m5, t5)"
    and s6: "update_episodeNo s m5 t5 = (None, m6, t6)"
    by (drule_tac and_then_None) auto
  from r5 obtain m4 t4 where
    r4: "and_then (and_then (and_then (update_title s movie0 st)
           (update_releaseDate s)) (update_director s)) (update_actor s) = (None, m4, t4)"
    and s5: "update_category s m4 t4 = (None, m5, t5)"
    by (drule_tac and_then_None) auto
  from r4 obtain m3 t3 where
    r3: "and_then (and_then (update_title s movie0 st)
           (update_releaseDate s)) (update_director s) = (None, m3, t3)"
    and s4: "update_actor s m3 t3 = (None, m4, t4)"
    by (drule_tac and_then_None) auto
  from r3 obtain m2 t2 where
    r2: "and_then (update_title s movie0 st) (update_releaseDate s) = (None, m2, t2)"
    and s3: "update_director s m2 t2 = (None, m3, t3)"
    by (drule_tac and_then_None) auto
  from r2 obtain m1 t1 where
    s1: "update_title s movie0 st = (None, m1, t1)"
    and s2: "update_releaseDate s m1 t1 = (None, m2, t2)"
    by (drule_tac and_then_None) auto
  from s1 s2 s3 s4 s5 s6 s7 show ?thesis by blast
qed

lemma update_body_fields:
  assumes "update_body s movie0 st = (None, this, st1)"
  shows "m_movieID this = m_movieID movie0 \<and> m_tvSeriesName this = m_tvSeriesName movie0
       \<and> (m_title this \<noteq> m_title movie0 \<longrightarrow> js_truthy (s_title s) \<and> m_title this = s_title s)
       \<and> (m_releaseDate this \<noteq> m_releaseDate movie0 \<longrightarrow>
             s_releaseDate s \<noteq> None \<and> m_releaseDate this = s_releaseDate s)
       \<and> (m_director this \<noteq> m_director movie0 \<longrightarrow> js_truthy (s_director s))
       \<and> (m_actor this \<noteq> m_actor movie0 \<longrightarrow> js_truthy (s_actor s))
       \<and> (m_category this \<noteq> m_category movie0 \<longrightarrow>
             js_truthy (s_category s) \<and> m_category movie0 = JUndefined
             \<and> m_category this = num_of (js_parseInt (s_category s)))
       \<and> (m_episodeNo this \<noteq> m_episodeNo movie0 \<longrightarrow>
             js_truthy (s_episodeNo s) \<and> m_episodeNo this = s_episodeNo s)
       \<and> (m_about this \<noteq> m_about movie0 \<longrightarrow> js_truthy (s_about s) \<and> m_about this = s_about s)"
proof -
  from update_body_steps[OF assms] obtain m1 t1 m2 t2 m3 t3 m4 t4 m5 t5 m6 t6 where
    s1: "update_title s movie0 st = (None, m1, t1)" and
    s2: "update_releaseDate s m1 t1 = (None, m2, t2)" and
    s3: "update_director s m2 t2 = (None, m3, t3)" and
    s4: "update_actor s m3 t3 = (None, m4, t4)" and
    s5: "update_category s m4 t4 = (None, m5, t5)" and
    s6: "update_episodeNo s m5 t5 = (None, m6, t6)" and
    s7: "update_about s m6 t6 = (None, this, st1)"
    by blast
  from update_title_field[OF s1] obtain v1 where
    e1: "m1 = movie0\<lparr> m_title := v1 \<rparr>"
    and c1: "v1 \<noteq> m_title movie0 \<longrightarrow> js_truthy (s_title s) \<and> v1 = s_title s" by blast
  from update_releaseDate_field[OF s2] obtain v2 where
    e2: "m2 = m1\<lparr> m_releaseDate := v2 \<rparr>"
    and c2: "v2 \<noteq> m_releaseDate m1 \<longrightarrow> s_releaseDate s \<noteq> None \<and> v2 = s_releaseDate s" by blast
  from update_director_field[OF s3] obtain v3 where
    e3: "m3 = m2\<lparr> m_director := v3 \<rparr>"
    and c3: "v3 \<noteq> m_director m2 \<longrightarrow> js_truthy (s_director s)" by blast
  from update_actor_field[OF s4] obtain v4 where
    e4: "m4 = m3\<lparr> m_actor := v4 \<rparr>"
    and c4: "v4 \<noteq> m_actor m3 \<longrightarrow> js_truthy (s_actor s)" by blast
  from update_category_field[OF s5] obtain v5 where
    e5: "m5 = m4\<lparr> m_category := v5 \<rparr>"
    and c5: "v5 \<noteq> m_category m4 \<longrightarrow> js_truthy (s_category s) \<and> m_category m4 = JUndefined
              \<and> v5 = num_of (js_parseInt (s_category s))" by blast
  from update_episodeNo_field[OF s6] obtain v6 where
    e6: "m6 = m5\<lparr> m_episodeNo := v6 \<rparr>"
    and c6: "v6 \<noteq> m_episodeNo m5 \<longrightarrow> js_truthy (s_episodeNo s) \<and> v6 = s_episodeNo s" by blast
  from update_about_field[OF s7] obtain v7 where
    e7: "this = m6\<lparr> m_about := v7 \<rparr>"
    and c7: "v7 \<noteq> m_about m6 \<longrightarrow> js_truthy (s_about s) \<and> v7 = s_about s" by blast
  have this_eq: "this = movie0\<lparr> m_title := v1, m_releaseDate := v2, m_director := v3,
      m_actor := v4, m_category := v5, m_episodeNo := v6, m_about := v7 \<rparr>"
    by (simp add: e1 e2 e3 e4 e5 e6 e7)
  have q: "m_releaseDate m1 = m_releaseDate movie0" "m_director m2 = m_director movie0"
       "m_actor m3 = m_actor movie0" "m_category m4 = m_category movie0"
       "m_episodeNo m5 = m_episodeNo movie0" "m_about m6 = m_about movie0"
    by (simp_all add: e1 e2 e3 e4 e5 e6)
  note d = c1 c2[unfolded q] c3[unfolded q] c4[unfolded q] c5[unfolded q] c6[unfolded q]
    c7[unfolded q]
  have sel: "m_movieID this = m_movieID movie0" "m_tvSeriesName this = m_tvSeriesName movie0"
    "m_title this = v1" "m_releaseDate this = v2" "m_director this = v3" "m_actor this = v4"
    "m_category this = v5" "m_episodeNo this = v6" "m_about this = v7"
    unfolding this_eq by simp_all
  show ?thesis unfolding sel using d by blast
qed

subsection \<open>The scenario of the spec\<close>

text \<open>Creating the movie of the scenario succeeds and leaves the population in which
  director 2 and the actors 3 and 4 hold the identifier of the movie.\<close>

lemma Movie_new_slots10:
  "Movie_new slots10 population = (None, movie10, population10\<lparr> Movie_instances := [] \<rparr>)"
  by (auto simp add: Movie_new_def setter_defs js_defs population_defs fun_eq_iff Let_def)

lemma Movie_add_slots10: "Movie_add slots10 population = population10"
  by (simp add: Movie_add_def Movie_new_slots10) (simp add: population_defs string_of_int_def)

subsection \<open>The director reference and its back-reference\<close>

text \<open>
  Claim C1. Let \<open>p\<close> be a truthy value whose identifier resolves in \<^verbatim>\<open>Director.instances\<close>
  to the Director object at \<open>a\<close> (an object with its \<^verbatim>\<open>directedMovies\<close> map), and let
  the movie's present director, if it has one, be such an object too. Then assigning
  \<open>p\<close> to the movie's \<^verbatim>\<open>director\<close> succeeds, the movie refers to \<open>a\<close>, and the
  \<^verbatim>\<open>directedMovies\<close> of \<open>a\<close>, which is still the entry of \<^verbatim>\<open>Director.instances\<close>, has the
  movie's identifier. Unsetting the director afterwards (assigning a falsy value)
  succeeds, leaves the movie without director and \<open>a\<close> without the identifier.
  Assigning afterwards a value whose identifier does not resolve to \<open>a\<close> leaves, whether
  the assignment succeeds or throws, the movie not referring to \<open>a\<close> and \<open>a\<close> without
  the identifier; when it resolves to another Director object, the assignment succeeds
  and that object is the movie's director and has the identifier.
\<close>

theorem director_backreference_maintained:
  assumes p: "js_truthy p" and id: "director_id_of p = Inr director_id"
      and res: "map_of (Director_instances st) (js_ToString director_id) = Some a"
      and dir: "o_directedMovies (heap st a) \<noteq> None"
      and old: "\<forall>old. m_director this = Some old \<longrightarrow> o_directedMovies (heap st old) \<noteq> None"
  shows "\<exists>this1 st1. set_director p this st = (None, this1, st1)
         \<and> m_director this1 = Some a
         \<and> m_movieID this1 = m_movieID this
         \<and> map_of (Director_instances st1) (js_ToString director_id) = Some a
         \<and> directedMovies_has st1 a (js_ToString (m_movieID this))
         \<and> (\<forall>q. \<not> js_truthy q \<longrightarrow>
               (\<exists>this2 st2. set_director q this1 st1 = (None, this2, st2)
                  \<and> m_director this2 = None
                  \<and> \<not> directedMovies_has st2 a (js_ToString (m_movieID this))))
         \<and> (\<forall>q id2 e this2 st2. js_truthy q \<and> director_id_of q = Inr id2
                \<and> map_of (Director_instances st1) (js_ToString id2) \<noteq> Some a
                \<and> set_director q this1 st1 = (e, this2, st2) \<longrightarrow>
                  m_director this2 \<noteq> Some a
                  \<and> \<not> directedMovies_has st2 a (js_ToString (m_movieID this))
                  \<and> (\<forall>a2. map_of (Director_instances st1) (js_ToString id2) = Some a2
                         \<and> o_directedMovies (heap st1 a2) \<noteq> None \<longrightarrow>
                           e = None \<and> m_director this2 = Some a2
                           \<and> directedMovies_has st2 a2 (js_ToString (m_movieID this))))"
  using assms
  apply (cases "m_director this")
   apply (auto simp: set_director_def delete_directedMovies_def put_directedMovies_def
      directedMovies_has_def update_conv' delete_conv' Let_def split: option.splits sum.splits if_splits)
  done

theorem director_backreference_maintained_witness:
  "js_truthy (JArr [JNum 2]) \<and> director_id_of (JArr [JNum 2]) = Inr (JNum 2)
   \<and> map_of (Director_instances population) (js_ToString (JNum 2)) = Some 0
   \<and> (\<exists>this1 st1. set_director (JArr [JNum 2]) (blank_movie\<lparr> m_movieID := JStr ''10'' \<rparr>) population
            = (None, this1, st1)
         \<and> m_director this1 = Some 0 \<and> directedMovies_has st1 0 ''10''
         \<and> (\<exists>this2 st2. set_director JUndefined this1 st1 = (None, this2, st2)
               \<and> m_director this2 = None \<and> \<not> directedMovies_has st2 0 ''10''))"
proof -
  have h: "js_truthy (JArr [JNum 2])" "director_id_of (JArr [JNum 2]) = Inr (JNum 2)"
    "map_of (Director_instances population) (js_ToString (JNum 2)) = Some 0"
    "o_directedMovies (heap population 0) \<noteq> None"
    "\<forall>old. m_director (blank_movie\<lparr> m_movieID := JStr ''10'' \<rparr>) = Some old
       \<longrightarrow> o_directedMovies (heap population old) \<noteq> None"
    by (simp_all add: director_id_of_def population_defs js_defs)
  from director_backreference_maintained[OF h] obtain this1 st1 where
    a: "set_director (JArr [JNum 2]) (blank_movie\<lparr> m_movieID := JStr ''10'' \<rparr>) population
          = (None, this1, st1)"
    and b: "m_director this1 = Some 0"
    and c: "directedMovies_has st1 0 (js_ToString (m_movieID (blank_movie\<lparr> m_movieID := JStr ''10'' \<rparr>)))"
    and d: "\<forall>q. \<not> js_truthy q \<longrightarrow>
               (\<exists>this2 st2. set_director q this1 st1 = (None, this2, st2)
                  \<and> m_director this2 = None
                  \<and> \<not> directedMovies_has st2 0 (js_ToString (m_movieID (blank_movie\<lparr> m_movieID := JStr ''10'' \<rparr>))))"
    by blast
  from d have "\<exists>this2 st2. set_director JUndefined this1 st1 = (None, this2, st2)
                  \<and> m_director this2 = None
                  \<and> \<not> directedMovies_has st2 0 (js_ToString (m_movieID (blank_movie\<lparr> m_movieID := JStr ''10'' \<rparr>)))"
    by simp
  with a b c h show ?thesis by (auto simp: blank_movie_def)
qed

subsection \<open>The category is written once\<close>

text \<open>
  Claim C2. For a movie without category, assigning a valid code (an integer, or a string
  of digits, between 1 and \<^verbatim>\<open>MovieCategoryEL.MAX\<close>) through the setter succeeds and
  stores the code as a number; every later assignment through the setter, whatever the
  value, throws a \<^verbatim>\<open>FrozenValueConstraintViolation\<close>, and a setter that throws leaves the
  object as it is.
\<close>

theorem category_write_once:
  assumes "\<not> js_truthy (m_category this)" and "isIntegerOrIntegerString c"
      and "js_parseInt c = Some n" and "1 \<le> n" and "n \<le> MovieCategoryEL_MAX"
  shows "set_category c this = Inr (this\<lparr> m_category := JNum n \<rparr>)
       \<and> (\<forall>c'. set_category c' (this\<lparr> m_category := JNum n \<rparr>)
                 = Inl (Violation FrozenValueConstraintViolation))"
proof -
  from assms(2) have "c \<noteq> JUndefined" by (auto simp: isIntegerOrIntegerString_def)
  with assms show ?thesis
    by (simp add: set_category_def checkCategory_def num_of_def Let_def)
qed

theorem category_write_once_witness:
  "set_category (JStr ''2'') movie10 = Inr (movie10\<lparr> m_category := JNum 2 \<rparr>)
   \<and> set_category (JNum 2) (movie10\<lparr> m_category := JNum 2 \<rparr>)
        = Inl (Violation FrozenValueConstraintViolation)
   \<and> set_category (JNum 1) (movie10\<lparr> m_category := JNum 2 \<rparr>)
        = Inl (Violation FrozenValueConstraintViolation)"
proof -
  have h: "\<not> js_truthy (m_category movie10)" "isIntegerOrIntegerString (JStr ''2'')"
    "js_parseInt (JStr ''2'') = Some 2" "(1::int) \<le> 2" "2 \<le> MovieCategoryEL_MAX"
    by (simp_all add: population_defs js_defs enum_defs)
  from category_write_once[OF h] show ?thesis by simp
qed

subsection \<open>Update is all or nothing on the collection of movies\<close>

text \<open>
  Claim C4. Let the collection hold a movie under the identifier of the update record.
  \<^verbatim>\<open>Movie.update\<close> returns without an exception. When a statement of its \<^verbatim>\<open>try\<close> block
  throws, the collection of movies is afterwards the one before the call: the entry is
  the snapshot. Otherwise the entry is the updated object, the other entries are as
  before, and a field of the object differs from its value before only if its slot is
  truthy; then the title, the release date, the episode number and the biography
  subject are the slot's value, and the category had no value before and is the number
  of the slot's value. The identifier and the series name never change.
\<close>

theorem update_all_or_nothing:
  assumes entry: "map_of (Movie_instances st) (js_ToString (s_movieID s)) = Some (Some movie0)"
      and body: "update_body s movie0 st = (r, this, st1)"
  shows "\<exists>st'. Movie_update s st = (None, st')
       \<and> (r \<noteq> None \<longrightarrow> map_of (Movie_instances st') = map_of (Movie_instances st))
       \<and> (r = None \<longrightarrow>
            map_of (Movie_instances st') =
              (map_of (Movie_instances st))(js_ToString (s_movieID s) \<mapsto> Some this)
          \<and> m_movieID this = m_movieID movie0 \<and> m_tvSeriesName this = m_tvSeriesName movie0
          \<and> (m_title this \<noteq> m_title movie0 \<longrightarrow> js_truthy (s_title s) \<and> m_title this = s_title s)
          \<and> (m_releaseDate this \<noteq> m_releaseDate movie0 \<longrightarrow>
                s_releaseDate s \<noteq> None \<and> m_releaseDate this = s_releaseDate s)
          \<and> (m_director this \<noteq> m_director movie0 \<longrightarrow> js_truthy (s_director s))
          \<and> (m_actor this \<noteq> m_actor movie0 \<longrightarrow> js_truthy (s_actor s))
          \<and> (m_category this \<noteq> m_category movie0 \<longrightarrow>
                js_truthy (s_category s) \<and> m_category movie0 = JUndefined
                \<and> m_category this = num_of (js_parseInt (s_category s)))
          \<and> (m_episodeNo this \<noteq> m_episodeNo movie0 \<longrightarrow>
                js_truthy (s_episodeNo s) \<and> m_episodeNo this = s_episodeNo s)
          \<and> (m_about this \<noteq> m_about movie0 \<longrightarrow>
                js_truthy (s_about s) \<and> m_about this = s_about s))"
proof (cases r)
  case None
  with body have b: "update_body s movie0 st = (None, this, st1)" by simp
  have i: "Movie_instances st1 = Movie_instances st"
    using update_body_instances[OF b] .
  define st' where "st' = st1\<lparr> Movie_instances :=
             AList.update (js_ToString (s_movieID s)) (Some this) (Movie_instances st1) \<rparr>"
  have u: "Movie_update s st = (None, st')"
    using entry b by (simp add: Movie_update_def cloneObject_def st'_def)
  have m: "map_of (Movie_instances st') =
      (map_of (Movie_instances st))(js_ToString (s_movieID s) \<mapsto> Some this)"
    by (simp add: st'_def update_conv' i)
  note f = update_body_fields[OF b]
  show ?thesis
    by (rule exI[of _ st']) (use u m f None in blast)
next
  case (Some e)
  with body have b: "update_body s movie0 st = (Some e, this, st1)" by simp
  have i: "Movie_instances st1 = Movie_instances st"
    using update_body_instances[OF b] .
  have u: "Movie_update s st = (None, st1\<lparr> Movie_instances :=
             AList.update (js_ToString (s_movieID s)) (Some movie0) (Movie_instances st1) \<rparr>)"
    using entry b by (simp add: Movie_update_def cloneObject_def)
  from u i Some entry show ?thesis
    by (simp add: map_of_update_present)
qed

theorem update_all_or_nothing_witness:
  "(\<exists>st'. Movie_update slots_unknown_director population10 = (None, st')
       \<and> map_of (Movie_instances st') ''10'' = Some (Some movie10)
       \<and> \<not> directedMovies_has st' 0 ''10'')
 \<and> (\<exists>st'. Movie_update slots_new_title population10 = (None, st')
       \<and> map_of (Movie_instances st') ''10'' = Some (Some (movie10\<lparr> m_title := JStr ''New'' \<rparr>)))"
proof -
  have entry1: "map_of (Movie_instances population10) (js_ToString (s_movieID slots_unknown_director))
      = Some (Some movie10)"
    by (simp add: population_defs)
  have entry2: "map_of (Movie_instances population10) (js_ToString (s_movieID slots_new_title))
      = Some (Some movie10)"
    by (simp add: population_defs)
  have b1: "update_body slots_unknown_director movie10 population10 =
      (Some TypeError, movie10\<lparr> m_title := JStr ''New'', m_director := None \<rparr>,
       population10\<lparr> heap := (heap population10)(0 := director2) \<rparr>)"
    by (simp add: update_body_def update_step_defs setter_defs js_defs population_defs Let_def)
  have b2: "update_body slots_new_title movie10 population10 =
      (None, movie10\<lparr> m_title := JStr ''New'' \<rparr>, population10)"
    by (simp add: update_body_def update_step_defs setter_defs js_defs population_defs Let_def)
  have u1: "Movie_update slots_unknown_director population10 =
      (None, population10\<lparr> heap := (heap population10)(0 := director2) \<rparr>)"
    by (simp add: Movie_update_def b1 entry1 cloneObject_def) (simp add: population_defs)
  from update_all_or_nothing[OF entry1 b1] update_all_or_nothing[OF entry2 b2] u1 show ?thesis
    by (auto simp: population_defs directedMovies_has_def)
qed

subsection \<open>Fields that depend on the category\<close>

text \<open>
  Claim C6. With the category of a TV series episode, a falsy (unset) episode number
  is a \<^verbatim>\<open>MandatoryValueConstraintViolation\<close>; with any other category, also none, a
  truthy episode number is a \<^verbatim>\<open>ConstraintViolation\<close>. The same holds of the biography
  subject \<^verbatim>\<open>about\<close> and the category of a biography. This is stated of the check
  functions for any category value, and of the setters, which check against the
  category of the movie and throw the violation.
\<close>

theorem category_dependent_fields: 
  "(js_parseInt c = Some TVSERIESEPISODE \<and> \<not> js_truthy v \<longrightarrow>
      checkEpisodeNo v c = MandatoryValueConstraintViolation)
 \<and> (js_parseInt c \<noteq> Some TVSERIESEPISODE \<and> js_truthy v \<longrightarrow>
      checkEpisodeNo v c = ConstraintViolation)
 \<and> (js_parseInt c = Some BIOGRAPHY \<and> \<not> js_truthy v \<longrightarrow>
      checkAbout v c = MandatoryValueConstraintViolation)
 \<and> (js_parseInt c \<noteq> Some BIOGRAPHY \<and> js_truthy v \<longrightarrow>
      checkAbout v c = ConstraintViolation)
 \<and> (js_parseInt (m_category this) = Some TVSERIESEPISODE \<and> \<not> js_truthy v \<longrightarrow>
      set_episodeNo v this = Inl (Violation MandatoryValueConstraintViolation))
 \<and> (js_parseInt (m_category this) \<noteq> Some TVSERIESEPISODE \<and> js_truthy v \<longrightarrow>
      set_episodeNo v this = Inl (Violation ConstraintViolation))
 \<and> (js_parseInt (m_category this) = Some BIOGRAPHY \<and> \<not> js_truthy v \<longrightarrow>
      set_about v this = Inl (Violation MandatoryValueConstraintViolation))
 \<and> (js_parseInt (m_category this) \<noteq> Some BIOGRAPHY \<and> js_truthy v \<longrightarrow>
      set_about v this = Inl (Violation ConstraintViolation))"
  by (simp add: checkEpisodeNo_def checkAbout_def set_episodeNo_def set_about_def Let_def)

theorem category_dependent_fields_witness:
  "checkEpisodeNo JUndefined (JNum 1) = MandatoryValueConstraintViolation
 \<and> set_episodeNo (JStr []) (movie10\<lparr> m_category := JNum 1 \<rparr>)
      = Inl (Violation MandatoryValueConstraintViolation)
 \<and> checkEpisodeNo (JNum 6) (JNum 2) = ConstraintViolation
 \<and> set_episodeNo (JNum 6) movie10 = Inl (Violation ConstraintViolation)
 \<and> checkAbout JUndefined (JNum 2) = MandatoryValueConstraintViolation
 \<and> set_about (JStr []) (movie10\<lparr> m_category := JNum 2 \<rparr>)
      = Inl (Violation MandatoryValueConstraintViolation)
 \<and> checkAbout (JStr ''14'') (JNum 1) = ConstraintViolation
 \<and> set_about (JStr ''14'') movie10 = Inl (Violation ConstraintViolation)"
  using category_dependent_fields[of "JNum 1" JUndefined "movie10\<lparr> m_category := JNum 1 \<rparr>"]
        category_dependent_fields[of "JNum 1" "JStr []" "movie10\<lparr> m_category := JNum 1 \<rparr>"]
        category_dependent_fields[of "JNum 2" "JNum 6" movie10]
        category_dependent_fields[of "JNum 2" JUndefined "movie10\<lparr> m_category := JNum 2 \<rparr>"]
        category_dependent_fields[of "JNum 2" "JStr []" "movie10\<lparr> m_category := JNum 2 \<rparr>"]
        category_dependent_fields[of "JNum 1" "JStr ''14''" movie10]
  by (simp add: js_defs enum_defs population_defs)

subsection \<open>Destroying a movie\<close>

text \<open>
  Claim C10. When the collection holds a movie under the identifier,
  \<^verbatim>\<open>Movie.destroy\<close> removes that entry and changes nothing else of the state: every
  other entry, the heap and the collections of persons are as before. So the
  \<^verbatim>\<open>directedMovies\<close> of the movie's director and the \<^verbatim>\<open>actedInMovies\<close> of each of its
  actors, if they had the movie's identifier before, have it afterwards.
\<close>

theorem destroy_keeps_back_references:
  assumes "map_of (Movie_instances st) (js_ToString movieID) = Some (Some this)"
  shows "Movie_destroy movieID st =
           st\<lparr> Movie_instances := AList.delete (js_ToString movieID) (Movie_instances st) \<rparr>
       \<and> map_of (Movie_instances (Movie_destroy movieID st)) =
           (map_of (Movie_instances st))(js_ToString movieID := None)
       \<and> (\<forall>a. m_director this = Some a
              \<and> directedMovies_has st a (js_ToString (m_movieID this))
            \<longrightarrow> directedMovies_has (Movie_destroy movieID st) a (js_ToString (m_movieID this)))
       \<and> (\<forall>actors k b. m_actor this = Some actors \<and> map_of actors k = Some (Some b)
              \<and> actedInMovies_has st b (js_ToString (m_movieID this))
            \<longrightarrow> actedInMovies_has (Movie_destroy movieID st) b (js_ToString (m_movieID this)))"
  using assms
  by (simp add: Movie_destroy_def delete_conv' directedMovies_has_def actedInMovies_has_def)

theorem destroy_keeps_back_references_witness:
  "map_of (Movie_instances population10) (js_ToString (JStr ''10'')) = Some (Some movie10)
 \<and> Movie_destroy (JStr ''10'') population10 = population10\<lparr> Movie_instances := [] \<rparr>
 \<and> directedMovies_has (Movie_destroy (JStr ''10'') population10) 0 ''10''
 \<and> actedInMovies_has (Movie_destroy (JStr ''10'') population10) 1 ''10''
 \<and> actedInMovies_has (Movie_destroy (JStr ''10'') population10) 2 ''10''"
proof -
  have h: "map_of (Movie_instances population10) (js_ToString (JStr ''10'')) = Some (Some movie10)"
    by (simp add: population_defs)
  have pre: "m_director movie10 = Some 0" "directedMovies_has population10 0 ''10''"
    "m_actor movie10 = Some [(''3'', Some 1), (''4'', Some 2)]"
    "actedInMovies_has population10 1 ''10''" "actedInMovies_has population10 2 ''10''"
    "js_ToString (m_movieID movie10) = ''10''"
    by (simp_all add: population_defs directedMovies_has_def actedInMovies_has_def)
  note t = destroy_keeps_back_references[OF h, unfolded pre]
  have e: "Movie_destroy (JStr ''10'') population10 = population10\<lparr> Movie_instances := [] \<rparr>"
    using t[THEN conjunct1] by (simp add: population_defs)
  have d: "directedMovies_has (Movie_destroy (JStr ''10'') population10) 0 ''10''"
    using t[THEN conjunct2, THEN conjunct2, THEN conjunct1, rule_format, of 0] pre by simp
  have a1: "actedInMovies_has (Movie_destroy (JStr ''10'') population10) 1 ''10''"
    using t[THEN conjunct2, THEN conjunct2, THEN conjunct2, rule_format,
            of "[(''3'', Some 1), (''4'', Some 2)]" "''3''" 1] pre by simp
  have a2: "actedInMovies_has (Movie_destroy (JStr ''10'') population10) 2 ''10''"
    using t[THEN conjunct2, THEN conjunct2, THEN conjunct2, rule_format,
            of "[(''3'', Some 1), (''4'', Some 2)]" "''4''" 2] pre by simp
  from h e d a1 a2 show ?thesis by blast
qed

subsection \<open>The category in update and in the constructor\<close>

text \<open>\<^verbatim>\<open>Movie.update\<close> assigns no category when the movie has one: a slot identical to
  the stored category passes without exception, any other truthy slot throws. The
  constructor calls the setter of a field that depends on the category only when the
  slot is truthy, so a record with the category of a TV series episode and no episode
  number is constructed.\<close>

lemma update_category_same_value:
  "js_truthy (s_category s) \<Longrightarrow> js_strict_eq (s_category s) (m_category movie) \<Longrightarrow>
     update_category s movie st = (None, movie, st)"
  by (auto simp: update_category_def js_strict_eq_def)

lemma update_category_other_value:
  "js_truthy (s_category s) \<Longrightarrow> m_category movie \<noteq> JUndefined \<Longrightarrow>
   \<not> js_strict_eq (s_category s) (m_category movie) \<Longrightarrow>
     update_category s movie st = (Some (Violation FrozenValueConstraintViolation), movie, st)"
  by (auto simp: update_category_def js_strict_eq_def)

lemma Movie_new_category_without_episodeNo:
  "Movie_new (slots10\<lparr> s_category := JNum 1 \<rparr>) population =
     (None, movie10\<lparr> m_category := JNum 1 \<rparr>, population10\<lparr> Movie_instances := [] \<rparr>)"
  by (auto simp add: Movie_new_def setter_defs js_defs enum_defs population_defs fun_eq_iff Let_def)

subsection \<open>Unresolved references\<close>

text \<open>
  Claim C3, evaluated on the population with movie 10 for the identifier 99, which is
  in no collection. \<^verbatim>\<open>Movie.checkDirector\<close> and \<^verbatim>\<open>Movie.checkActor\<close> return the
  referential-integrity violation, and neither setter calls them: assigning 99 as the
  director removes the movie from the \<^verbatim>\<open>directedMovies\<close> of its director, leaves the
  movie without director and throws a \<^verbatim>\<open>TypeError\<close>; \<^verbatim>\<open>addPerson\<close> stores an undefined
  entry under the key 99 in the movie's actor map and throws a \<^verbatim>\<open>TypeError\<close>.
\<close>

theorem unresolved_reference_throws_TypeError:
  "checkDirector (JNum 99) population10 = ReferentialIntegrityConstraintViolation
 \<and> set_director (JNum 99) movie10 population10 =
      (Some TypeError, movie10\<lparr> m_director := None \<rparr>,
       population10\<lparr> heap := (heap population10)(0 := director2) \<rparr>)
 \<and> checkActor (JNum 99) population10 = ReferentialIntegrityConstraintViolation
 \<and> addPerson (JNum 99) movie10 population10 =
      (Some TypeError,
       movie10\<lparr> m_actor := Some [(''3'', Some 1), (''4'', Some 2), (''99'', None)] \<rparr>,
       population10)"
  by (simp add: checkDirector_def checkActor_def checkPersonIdAsIdRef_def checkPersonId_def
        setter_defs js_defs population_defs Let_def)

subsection \<open>The release date\<close>

text \<open>The first day \<^verbatim>\<open>checkReleaseDate\<close> accepts is 28 January 1896, the month index 12
  of 1895 being January of the next year.\<close>

lemma YEAR_FIRST_MOVIE_is: "YEAR_FIRST_MOVIE = YMD 1896 1 28"
  by (simp add: YEAR_FIRST_MOVIE_def Date_ymd_def)

lemma checkReleaseDate_accepted:
  "checkReleaseDate (Some d) = Inr NoConstraintViolation \<longleftrightarrow> \<not> date_less d (YMD 1896 1 28)"
  by (simp add: checkReleaseDate_def YEAR_FIRST_MOVIE_is)

text \<open>
  Claim C5, evaluated. The release dates 1895-12-28 and 1896-01-27 are refused, and the
  refusal of these and of 1800-01-01 is a \<^verbatim>\<open>ReferenceError\<close>, the class
  \<^verbatim>\<open>IntervalConstraintViolation\<close> not being imported by the module. \<^verbatim>\<open>Movie.add\<close> with
  the release date 1800-01-01 catches the exception and leaves the state as it is.
\<close>

theorem releaseDate_threshold_and_exception:
  "checkReleaseDate (Some (YMD 1895 12 28)) = Inl ReferenceError
 \<and> checkReleaseDate (Some (YMD 1896 1 27)) = Inl ReferenceError
 \<and> checkReleaseDate (Some (YMD 1800 1 1)) = Inl ReferenceError
 \<and> Movie_new slots1800 population =
      (Some ReferenceError, blank_movie\<lparr> m_movieID := JStr ''10'', m_title := JStr ''T'' \<rparr>,
       population)
 \<and> Movie_add slots1800 population = population"
  by (simp add: Movie_add_def Movie_new_def setter_defs js_defs population_defs Let_def)

subsection \<open>The person identifier\<close>

text \<open>On a number \<^verbatim>\<open>checkPersonIdAsId\<close> refuses the negative ones and the keys of the
  collection of the direct type, and accepts every other, zero among them.\<close>

lemma checkPersonIdAsId_number:
  "checkPersonIdAsId (JNum n) DirectType st =
     (if n < 0 then RangeConstraintViolation
      else if map_of (instances_of (case DirectType of None \<Rightarrow> PersonClass | Some c \<Rightarrow> c) st)
                (string_of_int n) \<noteq> None
      then UniquenessConstraintViolation
      else NoConstraintViolation)"
  by (auto simp add: checkPersonIdAsId_def checkPersonId_def js_parseInt_def Let_def)

text \<open>
  Claim C7, evaluated on the test population: the identifier 0, as a number and as a
  string, and the string \<^verbatim>\<open>"7.5"\<close> pass the check without violation, and the setter
  stores the identifier 0.
\<close>

theorem checkPersonIdAsId_accepts_zero:
  "checkPersonIdAsId (JNum 0) None population = NoConstraintViolation
 \<and> checkPersonIdAsId (JStr ''0'') (Some DirectorClass) population = NoConstraintViolation
 \<and> checkPersonIdAsId (JStr ''7.5'') (Some ActorClass) population = NoConstraintViolation
 \<and> set_personId (JNum 0) director2 population = Inr (director2\<lparr> o_personId := JNum 0 \<rparr>)"
  by (simp add: set_personId_def checkPersonIdAsId_def checkPersonId_def instances_of_def
        population_defs js_defs)

subsection \<open>Saving and loading\<close>

text \<open>
  Claim C8, evaluated on the population with movie 10: the record \<^verbatim>\<open>Movie.saveAll\<close>
  stores for the movie holds, as \<^verbatim>\<open>director\<close>, the record of the Director object with
  its name and its \<^verbatim>\<open>directedMovies\<close>, and as \<^verbatim>\<open>actor\<close> a map from identifiers to the
  records of the Actor objects; no reference is stored as an identifier.
\<close>

theorem saveAll_stores_nested_person_records:
  "localStorage_movies (Movie_saveAll population10) =
     Records [(''10'', Some
       \<lparr> s_movieID = JStr ''10'', s_title = JStr ''T'', s_releaseDate = Some (YMD 1999 1 1),
         s_director = JObj [(''personId'', JNum 2), (''name'', JStr ''George Lucas''),
                            (''directedMovies'', JObj [(''10'', JStr ''10'')])],
         s_actor = JObj
           [(''3'', JObj [(''personId'', JNum 3), (''name'', JStr ''Quentin Tarantino''),
                          (''actedInMovies'', JObj [(''10'', JStr ''10'')])]),
            (''4'', JObj [(''personId'', JNum 4), (''name'', JStr ''Uma Thurman''),
                          (''agent'', JNum 15),
                          (''actedInMovies'', JObj [(''10'', JStr ''10'')])])],
         s_category = JUndefined, s_tvSeriesName = JUndefined, s_episodeNo = JUndefined,
         s_about = JUndefined \<rparr>)]"
  by (simp add: Movie_saveAll_def Movie_toJSON_def Person_toJSON_def population_defs)

text \<open>
  Claim C9, evaluated on a stored collection of two records, the first with an empty
  title: \<^verbatim>\<open>Movie.convertRec2Obj\<close> returns \<^verbatim>\<open>null\<close> for the first record and
  \<^verbatim>\<open>Movie.retrieveAll\<close> stores it under the record's key; the second record is loaded.
\<close>

theorem retrieveAll_stores_null_for_failed_record:
  "Movie_convertRec2Obj (Some slots_corrupt) population = (None, population)
 \<and> Movie_instances (Movie_retrieveAll stored_population) = [(''1'', None), (''10'', Some movie10)]
 \<and> map_of (Movie_instances (Movie_retrieveAll stored_population)) ''1'' = Some None"
  by (simp add: Movie_retrieveAll_def Movie_convertRec2Obj_def Movie_new_def setter_defs js_defs
        population_defs Let_def)

end
